theory Spec2Isabelle
  imports Complex_Main "HOL-Library.Word"
begin

unbundle bit_operations_syntax

section \<open>Session store (store.go)\<close>

text \<open>
  Go's \<open>int\<close> is a 64-bit two's complement integer on the platforms the service runs on;
  it is modelled as \<open>64 word\<close>, read through \<open>sint\<close> where the source compares signed
  values. Points in time and durations are nanosecond counts, modelled as \<open>int\<close>.
\<close>

type_synonym go_int = "64 word"

record CaptchaData =
  ID :: string
  PositionX :: go_int
  PositionY :: go_int
  CreatedAt :: int

record MemoryStore =
  data :: "string \<rightharpoonup> CaptchaData"
  ttl :: int

definition NewMemoryStore :: "int \<Rightarrow> MemoryStore" where
  "NewMemoryStore t = \<lparr>data = Map.empty, ttl = t\<rparr>"

text \<open>\<open>Set\<close> stamps the entry with the current time \<open>now\<close> and stores it under \<open>id\<close>.\<close>

definition Set :: "MemoryStore \<Rightarrow> string \<Rightarrow> CaptchaData \<Rightarrow> int \<Rightarrow> MemoryStore" where
  "Set m i d now = m\<lparr>data := (data m)(i \<mapsto> d\<lparr>CreatedAt := now\<rparr>)\<rparr>"

text \<open>\<open>Get\<close> answers not-found for a missing key and for an entry older than the ttl.\<close>

definition Get :: "MemoryStore \<Rightarrow> string \<Rightarrow> int \<Rightarrow> CaptchaData option" where
  "Get m i now =
     (case data m i of
        None \<Rightarrow> None
      | Some d \<Rightarrow> if now - CreatedAt d > ttl m then None else Some d)"

definition Delete :: "MemoryStore \<Rightarrow> string \<Rightarrow> MemoryStore" where
  "Delete m i = m\<lparr>data := (data m)(i := None)\<rparr>"

section \<open>Verification (slider.go)\<close>

datatype error =
    ErrNotFound
  | ErrNotInitialized
  | ErrNoBackground
  | ErrMaskNotFound
  | ErrEncode
  | PanicIntn
  | ErrOpen
  | ErrLoad

text \<open>\<open>abs\<close> of slider.go: the negation wraps, as Go's does.\<close>

definition abs_go :: "go_int \<Rightarrow> go_int" where
  "abs_go x = (if sint x < 0 then - x else x)"

definition Verify ::
  "MemoryStore \<Rightarrow> string \<Rightarrow> go_int \<Rightarrow> go_int \<Rightarrow> int \<Rightarrow> (error + bool) \<times> MemoryStore" where
  "Verify m i userX tolerance now =
     (case Get m i now of
        None \<Rightarrow> (Inl ErrNotFound, m)
      | Some d \<Rightarrow>
          (let diff = abs_go (userX - PositionX d);
               success = (sint diff \<le> sint tolerance)
           in (Inr success, if success then Delete m i else m)))"

definition VerifyWithTolerance ::
  "MemoryStore \<Rightarrow> string \<Rightarrow> go_int \<Rightarrow> int \<Rightarrow> (error + bool) \<times> MemoryStore" where
  "VerifyWithTolerance m i userX now = Verify m i userX 5 now"

text \<open>A session as \<open>Generate\<close> leaves it: stored under its id by \<open>Set\<close>.\<close>

definition session :: "string \<Rightarrow> go_int \<Rightarrow> go_int \<Rightarrow> CaptchaData" where
  "session i x y = \<lparr>ID = i, PositionX = x, PositionY = y, CreatedAt = 0\<rparr>"

definition five_minutes :: int where
  "five_minutes = 5 * 60 * 1000000000"

section \<open>Properties of verification\<close>

lemma Get_Set_fresh:
  "now' - now \<le> ttl m \<Longrightarrow> Get (Set m i d now) i now' = Some (d\<lparr>CreatedAt := now\<rparr>)"
  by (simp add: Get_def Set_def)

lemma Get_Delete: "Get (Delete m i) i now = None"
  by (simp add: Get_def Delete_def)

lemma Verify_success_consumes:
  "fst (Verify m i userX tol now) = Inr True \<Longrightarrow>
   fst (Verify (snd (Verify m i userX tol now)) i userX' tol' now') = Inl ErrNotFound"
  by (auto simp: Verify_def Let_def Get_Delete split: option.splits if_splits)

lemma abs_go_in_range:
  assumes "- (2 ^ 63) < sint x"
  shows "sint (abs_go x) = \<bar>sint x\<bar>"
proof (cases "sint x < 0")
  case True
  have "sint (- x) = - sint x"
    using assms sint_lt [of x] by (simp add: sint_word_ariths signed_take_bit_int_eq_self)
  then show ?thesis using True by (simp add: abs_go_def)
next
  case False
  then show ?thesis by (simp add: abs_go_def)
qed

text \<open>
  Away from the overflow, \<open>VerifyWithTolerance\<close> on a live session succeeds exactly
  when the claimed offset is within 5 pixels of the stored one.
\<close>

lemma VerifyWithTolerance_in_range:
  assumes "Get m i now = Some d"
    and "- (2 ^ 63) < sint userX - sint (PositionX d)"
    and "sint userX - sint (PositionX d) < 2 ^ 63"
  shows "fst (VerifyWithTolerance m i userX now) = Inr (\<bar>sint userX - sint (PositionX d)\<bar> \<le> 5)"
proof -
  have s: "sint (userX - PositionX d) = sint userX - sint (PositionX d)"
    using assms(2,3) by (simp add: sint_word_ariths signed_take_bit_int_eq_self)
  have "sint (abs_go (userX - PositionX d)) = \<bar>sint userX - sint (PositionX d)\<bar>"
    using abs_go_in_range [of "userX - PositionX d"] assms(2) by (simp add: s)
  then show ?thesis
    using assms(1) by (simp add: VerifyWithTolerance_def Verify_def Let_def)
qed

text \<open>
  C1. Every call to \<open>Verify\<close> is meant to consume the session, whatever the outcome
  (the source's own comment says: delete after verification, success or failure).
  The code deletes only on success: on a store holding session \<open>''s''\<close> with true offset
  100, a failed attempt at 200 leaves the store as it was, and a second attempt at 100
  on the same id succeeds.
\<close>

theorem Verify_failed_attempt_keeps_session:
  "Verify (Set (NewMemoryStore five_minutes) ''s'' (session ''s'' 100 40) 0) ''s'' 200 5 1
     = (Inr False, Set (NewMemoryStore five_minutes) ''s'' (session ''s'' 100 40) 0)
   \<and> fst (Verify (snd (Verify (Set (NewMemoryStore five_minutes) ''s'' (session ''s'' 100 40) 0)
                          ''s'' 200 5 1)) ''s'' 100 5 2) = Inr True"
  by (simp add: Verify_def Get_def Set_def NewMemoryStore_def session_def five_minutes_def
      abs_go_def Delete_def Let_def)

text \<open>
  C3. With the default tolerance \<open>Verify\<close> is meant to succeed exactly when the claimed
  offset is within 5 pixels of the true one. \<open>abs\<close> returns the most negative integer
  unchanged, and that value passes the comparison with the tolerance: on a fresh session
  with true offset 100 the claimed offset \<open>-2^63 + 100\<close>, which is 2^63 pixels away,
  is accepted.
\<close>

theorem VerifyWithTolerance_accepts_min_int:
  "fst (VerifyWithTolerance (Set (NewMemoryStore five_minutes) ''s'' (session ''s'' 100 40) 0)
          ''s'' (- (2 ^ 63) + 100) 1) = Inr True"
  by (simp add: VerifyWithTolerance_def Verify_def Get_def Set_def NewMemoryStore_def
      session_def five_minutes_def abs_go_def Delete_def Let_def)

section \<open>Placement selection (service.go, slider.go)\<close>

datatype PuzzleType = PuzzleTypeTriangle | PuzzleTypeHexagon | PuzzleTypeTrapezoid | PuzzleTypeStar

definition PuzzleWidth :: int where
  "PuzzleWidth = 70"

definition PuzzleHeight :: int where
  "PuzzleHeight = 70"

text \<open>
  \<open>rand.Intn n\<close> panics unless \<open>n > 0\<close>; otherwise it returns a value of \<open>[0, n)\<close>.
  The generator's raw draw is the explicit argument \<open>r\<close>.
\<close>

definition Intn :: "int \<Rightarrow> int \<Rightarrow> error + int" where
  "Intn n r = (if n \<le> 0 then Inl PanicIntn else Inr (r mod n))"

text \<open>
  The placement step of \<open>CaptchaService.Generate\<close> (the package-level \<open>Generate\<close> of
  slider.go has the same statements). Image dimensions are non-negative and far below
  2^53, so Go's truncating \<open>/\<close> is \<open>div\<close>, \<open>int(float64(w) * 0.25)\<close> is \<open>w div 4\<close> (0.25 is
  a power of two) and \<open>int(float64(h) * 0.15)\<close> is \<open>h * 15 div 100\<close>.
\<close>

definition Generate_placement :: "int \<Rightarrow> int \<Rightarrow> int \<Rightarrow> int \<Rightarrow> error + (int \<times> int)" where
  "Generate_placement imgWidth imgHeight rx ry =
     (let centerX = imgWidth div 2;
          centerY = imgHeight div 2;
          offsetRangeX = imgWidth div 4;
          offsetRangeY = (imgHeight * 15) div 100;
          minX = centerX - offsetRangeX;
          maxX = centerX + offsetRangeX - PuzzleWidth;
          minX = (if minX < 0 then 0 else minX);
          maxX = (if maxX > imgWidth - PuzzleWidth then imgWidth - PuzzleWidth else maxX);
          maxX = (if maxX < minX then minX + PuzzleWidth else maxX);
          minY = centerY - offsetRangeY;
          maxY = centerY + offsetRangeY - PuzzleHeight;
          minY = (if minY < 0 then 0 else minY);
          maxY = (if maxY > imgHeight - PuzzleHeight then imgHeight - PuzzleHeight else maxY);
          maxY = (if maxY < minY then minY + PuzzleHeight else maxY)
      in case Intn (maxX - minX) rx of
           Inl e \<Rightarrow> Inl e
         | Inr dx \<Rightarrow>
             (case Intn (maxY - minY) ry of
                Inl e \<Rightarrow> Inl e
              | Inr dy \<Rightarrow> Inr (dx + minX, dy + minY)))"

text \<open>
  On a canvas at least 144 wide and 240 high the clamped windows are not empty, and the
  placement step returns a position that keeps the mask inside the canvas.
\<close>

lemma Generate_placement_large:
  assumes "144 \<le> w" "240 \<le> h"
  shows "\<exists>x y. Generate_placement w h rx ry = Inr (x, y) \<and>
           0 \<le> x \<and> x \<le> w - 70 \<and> 0 \<le> y \<and> y \<le> h - 70"
proof -
  define minX where "minX = w div 2 - w div 4"
  define maxX where "maxX = w div 2 + w div 4 - 70"
  define minY where "minY = h div 2 - h * 15 div 100"
  define maxY where "maxY = h div 2 + h * 15 div 100 - 70"
  have x: "\<not> minX < 0" "\<not> maxX > w - 70" "\<not> maxX < minX" "0 < maxX - minX"
    using assms(1) unfolding minX_def maxX_def by linarith+
  have y: "\<not> minY < 0" "\<not> maxY > h - 70" "\<not> maxY < minY" "0 < maxY - minY"
    using assms(2) unfolding minY_def maxY_def by linarith+
  have g: "Generate_placement w h rx ry =
      Inr (rx mod (maxX - minX) + minX, ry mod (maxY - minY) + minY)"
    using x y unfolding Generate_placement_def Let_def PuzzleWidth_def PuzzleHeight_def Intn_def
    by (simp only: minX_def [symmetric] maxX_def [symmetric] minY_def [symmetric] maxY_def [symmetric])
       simp
  have "0 \<le> rx mod (maxX - minX)" "rx mod (maxX - minX) < maxX - minX"
    "0 \<le> ry mod (maxY - minY)" "ry mod (maxY - minY) < maxY - minY"
    using x(4) y(4) by simp_all
  with x y g show ?thesis by simp
qed

text \<open>
  C2. For a canvas of at least 70 by 70 the placement step is meant to return, without
  panicking, a position that keeps the 70 by 70 mask inside the canvas. On a 70 by 70
  canvas the clamped window is empty and is replaced by \<open>[minX, minX + 70)\<close>: the
  smallest draw gives \<open>(18, 25)\<close>, although only \<open>(0, 0)\<close> keeps the mask inside. On a
  canvas 140 wide the window is \<open>[35, 35)\<close>, the guard \<open>maxX < minX\<close> does not fire and
  \<open>rand.Intn 0\<close> panics.
\<close>

theorem Generate_placement_fails:
  "Generate_placement 70 70 0 0 = Inr (18, 25) \<and> Generate_placement 140 200 0 0 = Inl PanicIntn"
  by (simp add: Generate_placement_def Intn_def PuzzleWidth_def PuzzleHeight_def Let_def)

section \<open>Raster images (image.RGBA, image.Alpha)\<close>

text \<open>
  A raster is a rectangle of pixels with its origin at \<open>(0, 0)\<close>, as \<open>image.Decode\<close> and
  \<open>image.NewRGBA (image.Rect 0 0 w h)\<close> produce them. Reading outside the bounds gives
  the zero colour and writing outside the bounds does nothing, as \<open>RGBAAt\<close>, \<open>SetRGBA\<close>,
  \<open>AlphaAt\<close> and \<open>SetAlpha\<close> of the Go library do.
\<close>

record RGBA =
  R :: "8 word"
  G :: "8 word"
  B :: "8 word"
  A :: "8 word"

record Image =
  Dx :: int
  Dy :: int
  Pix :: "int \<times> int \<Rightarrow> RGBA"

record AlphaImage =
  ADx :: int
  ADy :: int
  APix :: "int \<times> int \<Rightarrow> 8 word"

definition inside :: "int \<Rightarrow> int \<Rightarrow> int \<Rightarrow> int \<Rightarrow> bool" where
  "inside w h x y = (0 \<le> x \<and> x < w \<and> 0 \<le> y \<and> y < h)"

definition Transparent :: RGBA where
  "Transparent = \<lparr>R = 0, G = 0, B = 0, A = 0\<rparr>"

definition NewRGBA :: "int \<Rightarrow> int \<Rightarrow> Image" where
  "NewRGBA w h = \<lparr>Dx = w, Dy = h, Pix = (\<lambda>p. Transparent)\<rparr>"

definition RGBAAt :: "Image \<Rightarrow> int \<Rightarrow> int \<Rightarrow> RGBA" where
  "RGBAAt img x y = (if inside (Dx img) (Dy img) x y then Pix img (x, y) else Transparent)"

definition SetRGBA :: "Image \<Rightarrow> int \<Rightarrow> int \<Rightarrow> RGBA \<Rightarrow> Image" where
  "SetRGBA img x y c =
     (if inside (Dx img) (Dy img) x y then img\<lparr>Pix := (Pix img)((x, y) := c)\<rparr> else img)"

definition NewAlpha :: "int \<Rightarrow> int \<Rightarrow> AlphaImage" where
  "NewAlpha w h = \<lparr>ADx = w, ADy = h, APix = (\<lambda>p. 0)\<rparr>"

definition AlphaAt :: "AlphaImage \<Rightarrow> int \<Rightarrow> int \<Rightarrow> 8 word" where
  "AlphaAt m x y = (if inside (ADx m) (ADy m) x y then APix m (x, y) else 0)"

definition SetAlpha :: "AlphaImage \<Rightarrow> int \<Rightarrow> int \<Rightarrow> 8 word \<Rightarrow> AlphaImage" where
  "SetAlpha m x y a =
     (if inside (ADx m) (ADy m) x y then m\<lparr>APix := (APix m)((x, y) := a)\<rparr> else m)"

text \<open>
  \<open>draw.Draw dst (dst.Bounds ()) src (image.Point {}) draw.Src\<close>: every pixel of \<open>dst\<close>
  that \<open>src\<close> covers is overwritten with the pixel of \<open>src\<close>.
\<close>

definition Draw :: "Image \<Rightarrow> Image \<Rightarrow> Image" where
  "Draw dst src =
     dst\<lparr>Pix := (\<lambda>(x, y).
        if inside (Dx dst) (Dy dst) x y \<and> inside (Dx src) (Dy src) x y
        then Pix src (x, y) else Pix dst (x, y))\<rparr>"

text \<open>The same with a uniform source such as \<open>image.Transparent\<close>.\<close>

definition DrawUniform :: "Image \<Rightarrow> RGBA \<Rightarrow> Image" where
  "DrawUniform dst c =
     dst\<lparr>Pix := (\<lambda>(x, y). if inside (Dx dst) (Dy dst) x y then c else Pix dst (x, y))\<rparr>"

text \<open>
  The loop nest \<open>for y := 0; y < h; y++ { for x := 0; x < w; x++ { body } }\<close>, with the
  state the body mutates passed through.
\<close>

definition for_yx :: "int \<Rightarrow> int \<Rightarrow> (int \<Rightarrow> int \<Rightarrow> 's \<Rightarrow> 's) \<Rightarrow> 's \<Rightarrow> 's" where
  "for_yx h w body s = fold (\<lambda>py. fold (\<lambda>px. body px py) [0..w - 1]) [0..h - 1] s"

subsection \<open>Reading back what was written\<close>

lemma Dx_SetRGBA [simp]: "Dx (SetRGBA img x y c) = Dx img"
  and Dy_SetRGBA [simp]: "Dy (SetRGBA img x y c) = Dy img"
  by (simp_all add: SetRGBA_def)

lemma RGBAAt_SetRGBA:
  "RGBAAt (SetRGBA img x y c) a b =
     (if a = x \<and> b = y \<and> inside (Dx img) (Dy img) x y then c else RGBAAt img a b)"
  by (auto simp: RGBAAt_def SetRGBA_def)

lemma SetRGBA_same: "SetRGBA img x y (RGBAAt img x y) = img"
  by (simp add: SetRGBA_def RGBAAt_def)

lemma SetRGBA_outside: "\<not> inside (Dx img) (Dy img) x y \<Longrightarrow> SetRGBA img x y c = img"
  by (simp add: SetRGBA_def)

lemma Dx_Draw [simp]: "Dx (Draw dst src) = Dx dst"
  and Dy_Draw [simp]: "Dy (Draw dst src) = Dy dst"
  by (simp_all add: Draw_def)

lemma RGBAAt_Draw:
  "RGBAAt (Draw dst src) a b =
     (if inside (Dx dst) (Dy dst) a b \<and> inside (Dx src) (Dy src) a b
      then RGBAAt src a b else RGBAAt dst a b)"
  by (simp add: Draw_def RGBAAt_def)

lemma RGBAAt_Draw_same:
  "Dx src = Dx dst \<Longrightarrow> Dy src = Dy dst \<Longrightarrow> RGBAAt (Draw dst src) a b = RGBAAt src a b"
  by (simp add: RGBAAt_Draw) (simp add: RGBAAt_def)

lemma Dx_DrawUniform [simp]: "Dx (DrawUniform dst c) = Dx dst"
  and Dy_DrawUniform [simp]: "Dy (DrawUniform dst c) = Dy dst"
  by (simp_all add: DrawUniform_def)

lemma Dx_NewRGBA [simp]: "Dx (NewRGBA w h) = w"
  and Dy_NewRGBA [simp]: "Dy (NewRGBA w h) = h"
  by (simp_all add: NewRGBA_def)

lemma RGBAAt_NewRGBA [simp]: "RGBAAt (NewRGBA w h) a b = Transparent"
  by (simp add: NewRGBA_def RGBAAt_def)

lemma RGBAAt_copy: "RGBAAt (Draw (NewRGBA (Dx img) (Dy img)) img) a b = RGBAAt img a b"
  by (simp add: RGBAAt_Draw_same)

lemma ADx_SetAlpha [simp]: "ADx (SetAlpha m x y a) = ADx m"
  and ADy_SetAlpha [simp]: "ADy (SetAlpha m x y a) = ADy m"
  by (simp_all add: SetAlpha_def)

lemma AlphaAt_SetAlpha:
  "AlphaAt (SetAlpha m x y v) a b =
     (if a = x \<and> b = y \<and> inside (ADx m) (ADy m) x y then v else AlphaAt m a b)"
  by (auto simp: AlphaAt_def SetAlpha_def)

subsection \<open>Loops that rewrite only the pixel they visit\<close>

text \<open>
  Every pixel loop of the compositor visits the pixel \<open>(x + px, y + py)\<close> for the mask
  position \<open>(px, py)\<close> and writes, at most, that pixel: the new colour \<open>f w h px py c\<close>
  depends on the image only through its bounds \<open>w\<close>, \<open>h\<close> and the old colour \<open>c\<close> of the
  pixel. After such a loop each pixel of the window holds \<open>f\<close> of its old colour and all
  other pixels are as before.
\<close>

definition pointwise ::
  "int \<Rightarrow> int \<Rightarrow> (int \<Rightarrow> int \<Rightarrow> int \<Rightarrow> int \<Rightarrow> RGBA \<Rightarrow> RGBA) \<Rightarrow>
   (int \<Rightarrow> int \<Rightarrow> Image \<Rightarrow> Image) \<Rightarrow> bool" where
  "pointwise x y f body =
     (\<forall>px py img. body px py img =
        SetRGBA img (x + px) (y + py) (f (Dx img) (Dy img) px py (RGBAAt img (x + px) (y + py))))"

lemma fold_row_pointwise:
  assumes "pointwise x y f body" "distinct xs"
  shows "Dx (fold (\<lambda>px. body px py) xs img) = Dx img \<and>
         Dy (fold (\<lambda>px. body px py) xs img) = Dy img \<and>
         RGBAAt (fold (\<lambda>px. body px py) xs img) a b =
           (if b = y + py \<and> a - x \<in> set xs \<and> inside (Dx img) (Dy img) a b
            then f (Dx img) (Dy img) (a - x) py (RGBAAt img a b) else RGBAAt img a b)"
  using assms(2)
proof (induction xs arbitrary: img)
  case Nil
  then show ?case by simp
next
  case (Cons x0 xs)
  let ?img = "body x0 py img"
  have b: "?img = SetRGBA img (x + x0) (y + py) (f (Dx img) (Dy img) x0 py (RGBAAt img (x + x0) (y + py)))"
    using assms(1) by (simp add: pointwise_def)
  have d: "distinct xs" "x0 \<notin> set xs" using Cons.prems by simp_all
  note ih = Cons.IH [OF d(1), of ?img]
  show ?case
    unfolding fold_simps ih [THEN conjunct1] ih [THEN conjunct2, THEN conjunct1]
      ih [THEN conjunct2, THEN conjunct2]
    unfolding b using d(2)
    by (auto simp: RGBAAt_SetRGBA)
qed

lemma for_yx_pointwise:
  assumes "pointwise x y f body"
  shows "Dx (for_yx h w body img) = Dx img \<and>
         Dy (for_yx h w body img) = Dy img \<and>
         RGBAAt (for_yx h w body img) a b =
           (if inside w h (a - x) (b - y) \<and> inside (Dx img) (Dy img) a b
            then f (Dx img) (Dy img) (a - x) (b - y) (RGBAAt img a b) else RGBAAt img a b)"
proof -
  have rows: "distinct ys \<Longrightarrow>
         Dx (fold (\<lambda>py. fold (\<lambda>px. body px py) [0..w - 1]) ys img) = Dx img \<and>
         Dy (fold (\<lambda>py. fold (\<lambda>px. body px py) [0..w - 1]) ys img) = Dy img \<and>
         RGBAAt (fold (\<lambda>py. fold (\<lambda>px. body px py) [0..w - 1]) ys img) a b =
           (if b - y \<in> set ys \<and> a - x \<in> set [0..w - 1] \<and> inside (Dx img) (Dy img) a b
            then f (Dx img) (Dy img) (a - x) (b - y) (RGBAAt img a b) else RGBAAt img a b)" for ys img
  proof (induction ys arbitrary: img)
    case Nil
    then show ?case by simp
  next
    case (Cons y0 ys)
    let ?img = "fold (\<lambda>px. body px y0) [0..w - 1] img"
    note row = fold_row_pointwise [OF assms, of "[0..w - 1]" y0 img, simplified]
    have d: "distinct ys" "y0 \<notin> set ys" using Cons.prems by simp_all
    note ih = Cons.IH [OF d(1), of ?img]
    show ?case
      unfolding fold_simps ih [THEN conjunct1] ih [THEN conjunct2, THEN conjunct1]
        ih [THEN conjunct2, THEN conjunct2]
      using d(2) row by auto
  qed
  show ?thesis
    unfolding for_yx_def using rows [of "[0..h - 1]" img]
    by (auto simp: inside_def)
qed

text \<open>The same for a loop that sets every pixel of an alpha mask it visits.\<close>

lemma fold_row_SetAlpha:
  assumes "distinct xs"
  shows "ADx (fold (\<lambda>px m. SetAlpha m px py (v px py)) xs m) = ADx m \<and>
         ADy (fold (\<lambda>px m. SetAlpha m px py (v px py)) xs m) = ADy m \<and>
         AlphaAt (fold (\<lambda>px m. SetAlpha m px py (v px py)) xs m) a b =
           (if b = py \<and> a \<in> set xs \<and> inside (ADx m) (ADy m) a b then v a b else AlphaAt m a b)"
  using assms
proof (induction xs arbitrary: m)
  case Nil
  then show ?case by simp
next
  case (Cons x0 xs)
  then have d: "distinct xs" "x0 \<notin> set xs" by simp_all
  note ih = Cons.IH [OF d(1), of "SetAlpha m x0 py (v x0 py)"]
  show ?case
    unfolding fold_simps ih [THEN conjunct1] ih [THEN conjunct2, THEN conjunct1]
      ih [THEN conjunct2, THEN conjunct2]
    using d(2) by (auto simp: AlphaAt_SetAlpha)
qed

lemma for_yx_SetAlpha:
  "ADx (for_yx h w (\<lambda>px py m. SetAlpha m px py (v px py)) m) = ADx m \<and>
   ADy (for_yx h w (\<lambda>px py m. SetAlpha m px py (v px py)) m) = ADy m \<and>
   AlphaAt (for_yx h w (\<lambda>px py m. SetAlpha m px py (v px py)) m) a b =
     (if inside w h a b \<and> inside (ADx m) (ADy m) a b then v a b else AlphaAt m a b)"
proof -
  have rows: "distinct ys \<Longrightarrow>
     ADx (fold (\<lambda>py. fold (\<lambda>px m. SetAlpha m px py (v px py)) [0..w - 1]) ys m) = ADx m \<and>
     ADy (fold (\<lambda>py. fold (\<lambda>px m. SetAlpha m px py (v px py)) [0..w - 1]) ys m) = ADy m \<and>
     AlphaAt (fold (\<lambda>py. fold (\<lambda>px m. SetAlpha m px py (v px py)) [0..w - 1]) ys m) a b =
       (if b \<in> set ys \<and> a \<in> set [0..w - 1] \<and> inside (ADx m) (ADy m) a b
        then v a b else AlphaAt m a b)" for ys m
  proof (induction ys arbitrary: m)
    case Nil
    then show ?case by simp
  next
    case (Cons y0 ys)
    let ?m = "fold (\<lambda>px m. SetAlpha m px y0 (v px y0)) [0..w - 1] m"
    note row = fold_row_SetAlpha [of "[0..w - 1]" y0 v m a b, simplified]
    have d: "distinct ys" "y0 \<notin> set ys" using Cons.prems by simp_all
    note ih = Cons.IH [OF d(1), of ?m]
    show ?case
      unfolding fold_simps ih [THEN conjunct1] ih [THEN conjunct2, THEN conjunct1]
        ih [THEN conjunct2, THEN conjunct2]
      using d(2) row by auto
  qed
  show ?thesis
    unfolding for_yx_def using rows [of "[0..h - 1]" m]
    by (auto simp: inside_def)
qed

text \<open>Two test images: a canvas of one colour and a mask with the single pixel \<open>(1, 1)\<close>.\<close>

definition plain :: "int \<Rightarrow> int \<Rightarrow> RGBA \<Rightarrow> Image" where
  "plain w h c = \<lparr>Dx = w, Dy = h, Pix = (\<lambda>p. c)\<rparr>"

definition grey :: RGBA where
  "grey = \<lparr>R = 200, G = 200, B = 200, A = 255\<rparr>"

definition dot_mask :: AlphaImage where
  "dot_mask = \<lparr>ADx = 70, ADy = 70, APix = (\<lambda>p. if p = (1, 1) then 255 else 0)\<rparr>"

lemma plain_at: "RGBAAt (plain w h c) a b = (if inside w h a b then c else Transparent)"
  and Dx_plain [simp]: "Dx (plain w h c) = w"
  and Dy_plain [simp]: "Dy (plain w h c) = h"
  by (simp_all add: plain_def RGBAAt_def)

lemma dot_alpha: "AlphaAt dot_mask a b = (if a = 1 \<and> b = 1 then 255 else 0)"
  by (simp add: AlphaAt_def dot_mask_def inside_def)

lemma upto3: "[-1..1] = [-1, 0, 1::int]"
  by (simp add: upto.simps)

lemma ints3: "{-1..1::int} = {-1, 0, 1}"
  by auto

section \<open>Resampler (image.go)\<close>

text \<open>
  \<open>color.RGBA.RGBA ()\<close> widens a channel to 16 bits: \<open>r |= r << 8\<close> on a \<open>uint32\<close>.
\<close>

definition RGBA16 :: "8 word \<Rightarrow> 32 word" where
  "RGBA16 c = (let r = ucast c in r OR push_bit 8 r)"

text \<open>The blend of four samples with the weights \<open>wx\<close>, \<open>wy\<close>, in \<open>uint32\<close> arithmetic.\<close>

definition bilinear ::
  "32 word \<Rightarrow> 32 word \<Rightarrow> 32 word \<Rightarrow> 32 word \<Rightarrow> 32 word \<Rightarrow> 32 word \<Rightarrow> 32 word" where
  "bilinear c00 c01 c10 c11 wx wy =
     (let wx_inv = 65535 - wx; wy_inv = 65535 - wy
      in (c00 * wx_inv + c10 * wx) div 65535 * wy_inv div 65535
         + (c01 * wx_inv + c11 * wx) div 65535 * wy div 65535)"

text \<open>
  The colour of destination pixel \<open>(x, y)\<close>. The source is an \<open>image.RGBA\<close>, for which
  \<open>At\<close> is \<open>RGBAAt\<close>. The source coordinate
  \<open>float64(x) * float64(srcW) / float64(width)\<close> is taken exactly: its integer part is
  \<open>x * srcW div width\<close> and its fractional part is \<open>(x * srcW mod width) / width\<close>. When
  \<open>width\<close> divides \<open>x * srcW\<close>, as it does when the image keeps its size, the
  floating-point operations of the source are exact as well.
\<close>

definition ResizeImage_pixel :: "Image \<Rightarrow> int \<Rightarrow> int \<Rightarrow> int \<Rightarrow> int \<Rightarrow> RGBA" where
  "ResizeImage_pixel src width height x y =
     (let srcW = Dx src; srcH = Dy src;
          x0 = (x * srcW) div width;
          y0 = (y * srcH) div height;
          x1 = x0 + 1;
          y1 = y0 + 1;
          x1 = (if x1 \<ge> srcW then srcW - 1 else x1);
          y1 = (if y1 \<ge> srcH then srcH - 1 else y1);
          c00 = RGBAAt src x0 y0;
          c01 = RGBAAt src x0 y1;
          c10 = RGBAAt src x1 y0;
          c11 = RGBAAt src x1 y1;
          wx = (word_of_int (((x * srcW) mod width) * 65535 div width) :: 32 word);
          wy = (word_of_int (((y * srcH) mod height) * 65535 div height) :: 32 word);
          r = bilinear (RGBA16 (R c00)) (RGBA16 (R c01)) (RGBA16 (R c10)) (RGBA16 (R c11)) wx wy;
          g = bilinear (RGBA16 (G c00)) (RGBA16 (G c01)) (RGBA16 (G c10)) (RGBA16 (G c11)) wx wy;
          b = bilinear (RGBA16 (B c00)) (RGBA16 (B c01)) (RGBA16 (B c10)) (RGBA16 (B c11)) wx wy;
          a = bilinear (RGBA16 (A c00)) (RGBA16 (A c01)) (RGBA16 (A c10)) (RGBA16 (A c11)) wx wy
      in \<lparr>R = ucast (drop_bit 8 r), G = ucast (drop_bit 8 g),
          B = ucast (drop_bit 8 b), A = ucast (drop_bit 8 a)\<rparr>)"

definition ResizeImage :: "Image \<Rightarrow> int \<Rightarrow> int \<Rightarrow> Image" where
  "ResizeImage src width height =
     for_yx height width (\<lambda>x y dst. SetRGBA dst x y (ResizeImage_pixel src width height x y))
       (NewRGBA width height)"

text \<open>An image whose pixels are all different, for testing.\<close>

definition gradient :: Image where
  "gradient = \<lparr>Dx = 3, Dy = 2, Pix = (\<lambda>(x, y). \<lparr>R = word_of_int x, G = word_of_int y, B = 7, A = 255\<rparr>)\<rparr>"

subsection \<open>Resizing to the same size\<close>

lemma unat8: "unat (c :: 8 word) < 256"
  using unsigned_less [of c, where ?'a = nat] by simp

lemma RGBA16_high: "ucast (drop_bit 8 (RGBA16 c)) = c"
  unfolding RGBA16_def Let_def
  by (rule bit_word_eqI) (auto simp: bit_simps dest: bit_imp_le_length)

lemma RGBA16_add: "RGBA16 c = ucast c + push_bit 8 (ucast c)"
  unfolding RGBA16_def Let_def
  by (rule disjunctive_add [symmetric]) (auto simp: bit_simps dest: bit_imp_le_length)

lemma unat_RGBA16: "unat (RGBA16 c) = unat c * 257"
proof -
  have b: "unat c < 256" by (rule unat8)
  have u: "unat (ucast c :: 32 word) = unat c"
    by (simp add: unsigned_ucast_eq take_bit_nat_eq_self b [THEN less_trans])
  have "unat (push_bit 8 (ucast c :: 32 word)) = unat c * 256"
    using b by (simp add: push_bit_eq_mult unat_word_ariths u)
  then show ?thesis
    using b by (simp add: RGBA16_add unat_word_ariths u)
qed

lemma bilinear_identity:
  assumes "unat c00 \<le> 65535"
  shows "bilinear c00 c01 c10 c11 0 0 = c00"
proof -
  have m: "unat (c00 * 65535) = unat c00 * 65535"
    using assms by (simp add: unat_word_ariths)
  have d: "c00 * 65535 div 65535 = c00"
    by (rule word_unat_eq_iff [THEN iffD2]) (simp add: unat_div m)
  show ?thesis
    by (simp add: bilinear_def Let_def d)
qed

lemma bilinear_RGBA16:
  "ucast (drop_bit 8 (bilinear (RGBA16 c) c01 c10 c11 0 0)) = c"
proof -
  have "unat (RGBA16 c) \<le> 65535"
    using unat8 [of c] by (simp add: unat_RGBA16)
  then show ?thesis
    by (simp add: bilinear_identity RGBA16_high)
qed

lemma ResizeImage_px:
  "Dx (ResizeImage src width height) = width"
  "Dy (ResizeImage src width height) = height"
  "RGBAAt (ResizeImage src width height) a b =
     (if inside width height a b then ResizeImage_pixel src width height a b else Transparent)"
proof -
  have p: "pointwise 0 0 (\<lambda>w h x y c. ResizeImage_pixel src width height x y)
            (\<lambda>x y dst. SetRGBA dst x y (ResizeImage_pixel src width height x y))"
    by (simp add: pointwise_def)
  note px = for_yx_pointwise [OF p, of height width "NewRGBA width height" a b, folded ResizeImage_def]
  show "Dx (ResizeImage src width height) = width" "Dy (ResizeImage src width height) = height"
    "RGBAAt (ResizeImage src width height) a b =
     (if inside width height a b then ResizeImage_pixel src width height a b else Transparent)"
    using px by simp_all
qed

lemma ResizeImage_pixel_same:
  assumes "inside (Dx src) (Dy src) x y"
  shows "ResizeImage_pixel src (Dx src) (Dy src) x y = RGBAAt src x y"
proof -
  have nz: "Dx src \<noteq> 0" "Dy src \<noteq> 0" using assms by (auto simp: inside_def)
  show ?thesis
    unfolding ResizeImage_pixel_def Let_def
    by (simp add: nz bilinear_RGBA16)
qed

text \<open>
  C7. Resizing an RGBA image of width \<open>w \<ge> 1\<close> and height \<open>h \<ge> 1\<close> to its own
  dimensions returns an image of the same bounds whose every pixel equals the source
  pixel.
\<close>

theorem ResizeImage_same_size:
  assumes "1 \<le> Dx src" "1 \<le> Dy src"
  shows "Dx (ResizeImage src (Dx src) (Dy src)) = Dx src \<and>
         Dy (ResizeImage src (Dx src) (Dy src)) = Dy src \<and>
         (\<forall>x y. RGBAAt (ResizeImage src (Dx src) (Dy src)) x y = RGBAAt src x y)"
proof -
  have "RGBAAt (ResizeImage src (Dx src) (Dy src)) x y = RGBAAt src x y" for x y
  proof (cases "inside (Dx src) (Dy src) x y")
    case True
    then show ?thesis
      by (simp add: ResizeImage_px ResizeImage_pixel_same)
  next
    case False
    then show ?thesis
      by (simp add: ResizeImage_px RGBAAt_def)
  qed
  then show ?thesis by (simp add: ResizeImage_px)
qed

theorem ResizeImage_same_size_witness:
  "1 \<le> Dx gradient \<and> 1 \<le> Dy gradient \<and>
   RGBAAt (ResizeImage gradient 3 2) 2 1 = \<lparr>R = 2, G = 1, B = 7, A = 255\<rparr>"
proof -
  have h: "1 \<le> Dx gradient" "1 \<le> Dy gradient" by (simp_all add: gradient_def)
  have d: "Dx gradient = 3" "Dy gradient = 2" by (simp_all add: gradient_def)
  have g: "RGBAAt gradient 2 1 = \<lparr>R = 2, G = 1, B = 7, A = 255\<rparr>"
    by (simp add: RGBAAt_def inside_def gradient_def)
  from ResizeImage_same_size [OF h]
  have "RGBAAt (ResizeImage gradient (Dx gradient) (Dy gradient)) 2 1 = RGBAAt gradient 2 1"
    by blast
  then show ?thesis using h by (simp add: d g)
qed

section \<open>Shape masks (puzzle.go)\<close>

text \<open>
  \<open>PuzzleShape\<close> with the fields of the source; only \<open>Type\<close> is ever read. \<open>shape_of t\<close>
  is the literal \<open>PuzzleShape {Type: t}\<close>.
\<close>

record PuzzleShape =
  Type :: PuzzleType
  RightTab :: bool
  RightRadius :: int
  RightY :: int
  LeftTab :: bool
  LeftRadius :: int
  LeftY :: int
  TopTab :: bool
  TopRadius :: int
  TopX :: int
  BottomTab :: bool
  BottomRadius :: int
  BottomX :: int

definition shape_of :: "PuzzleType \<Rightarrow> PuzzleShape" where
  "shape_of t =
     \<lparr>Type = t, RightTab = False, RightRadius = 0, RightY = 0,
      LeftTab = False, LeftRadius = 0, LeftY = 0,
      TopTab = False, TopRadius = 0, TopX = 0,
      BottomTab = False, BottomRadius = 0, BottomX = 0\<rparr>"

text \<open>
  The four predicates compute in \<open>float64\<close>; here they compute in the reals, with
  \<open>math.Sqrt\<close>, \<open>math.Atan2\<close> and \<open>math.Pi\<close> as \<open>sqrt\<close>, \<open>Atan2\<close> and \<open>pi\<close>. The pixels
  the theorems below decide (the apex and the centre of a shape, the pixels of the outer
  border) are those where the comparison is exact or far from its threshold.
\<close>

definition isInsideTriangle :: "int \<Rightarrow> int \<Rightarrow> bool" where
  "isInsideTriangle x y =
     (let centerX = PuzzleWidth div 2;
          marginBottom = 8;
          marginSide = 8
      in if x < marginSide \<or> x \<ge> PuzzleWidth - marginSide then False
         else if y \<ge> PuzzleHeight - marginBottom then False
         else
           (let height = real_of_int (PuzzleHeight - marginBottom);
                relativeY = real_of_int y / height;
                topWidth = 0;
                bottomWidth = real_of_int (PuzzleWidth - 2 * marginSide);
                currentWidth = topWidth + (bottomWidth - topWidth) * relativeY;
                dx = real_of_int (x - centerX)
            in \<bar>dx\<bar> \<le> currentWidth / 2))"

definition hexagon_vertices :: "real \<Rightarrow> (real \<times> real) list" where
  "hexagon_vertices radius =
     [(radius, 0),
      (radius / 2, radius * sqrt 3 / 2),
      (- radius / 2, radius * sqrt 3 / 2),
      (- radius, 0),
      (- radius / 2, - radius * sqrt 3 / 2),
      (radius / 2, - radius * sqrt 3 / 2)]"

definition isInsideHexagon :: "int \<Rightarrow> int \<Rightarrow> bool" where
  "isInsideHexagon x y =
     (let centerX = PuzzleWidth div 2;
          centerY = PuzzleHeight div 2;
          radius = real_of_int (PuzzleWidth div 2 - 10);
          px = real_of_int (x - centerX);
          py = real_of_int (y - centerY);
          vertices = hexagon_vertices radius
      in list_all (\<lambda>i.
           (let j = (i + 1) mod 6;
                edgeX = fst (vertices ! j) - fst (vertices ! i);
                edgeY = snd (vertices ! j) - snd (vertices ! i);
                pointX = px - fst (vertices ! i);
                pointY = py - snd (vertices ! i);
                cross = edgeX * pointY - edgeY * pointX
            in \<not> cross < 0)) [0..<6])"

definition isInsideTrapezoid :: "int \<Rightarrow> int \<Rightarrow> bool" where
  "isInsideTrapezoid x y =
     (let centerX = PuzzleWidth div 2;
          centerY = PuzzleHeight div 2;
          height = real_of_int (PuzzleHeight - 20);
          topWidth = real_of_int (PuzzleWidth - 40);
          bottomWidth = real_of_int (PuzzleWidth - 20);
          dx = real_of_int (x - centerX);
          dy = real_of_int (y - centerY)
      in if \<bar>dy\<bar> > height / 2 then False
         else
           (let normalizedY = (dy + height / 2) / height;
                currentWidth = topWidth + (bottomWidth - topWidth) * normalizedY
            in \<bar>dx\<bar> \<le> currentWidth / 2))"

text \<open>\<open>math.Atan2 y x\<close>: the angle of the point \<open>(x, y)\<close>, in \<open>(-pi, pi]\<close>.\<close>

definition Atan2 :: "real \<Rightarrow> real \<Rightarrow> real" where
  "Atan2 y x =
     (if x > 0 then arctan (y / x)
      else if x < 0 then (if y \<ge> 0 then arctan (y / x) + pi else arctan (y / x) - pi)
      else if y > 0 then pi / 2
      else if y < 0 then - pi / 2
      else 0)"

text \<open>The conversion \<open>int(f)\<close> of a float truncates towards zero.\<close>

definition trunc :: "real \<Rightarrow> int" where
  "trunc r = (if r < 0 then \<lceil>r\<rceil> else \<lfloor>r\<rfloor>)"

definition isInsideStar :: "int \<Rightarrow> int \<Rightarrow> bool" where
  "isInsideStar x y =
     (let centerX = PuzzleWidth div 2;
          centerY = PuzzleHeight div 2;
          outerRadius = real_of_int (PuzzleWidth div 2 - 8);
          innerRadius = outerRadius * 0.4;
          dx = real_of_int (x - centerX);
          dy = real_of_int (y - centerY);
          dist = sqrt (dx * dx + dy * dy);
          angle = Atan2 dy dx;
          angle = (if angle < 0 then angle + 2 * pi else angle);
          segmentAngle = 2 * pi / 5;
          halfAngle = pi / 5;
          normalizedAngle = angle + pi / 2;
          normalizedAngle = (if normalizedAngle < 0 then normalizedAngle + 2 * pi else normalizedAngle);
          normalizedAngle = (if normalizedAngle \<ge> 2 * pi then normalizedAngle - 2 * pi else normalizedAngle);
          segmentIndex = trunc (normalizedAngle / segmentAngle);
          angleInSegment = normalizedAngle - real_of_int segmentIndex * segmentAngle;
          centerOffset = \<bar>angleInSegment - halfAngle\<bar>;
          maxDist = innerRadius + (outerRadius - innerRadius) * (1 - centerOffset / halfAngle)
      in dist \<le> maxDist)"

definition isInsidePuzzle :: "int \<Rightarrow> int \<Rightarrow> PuzzleShape \<Rightarrow> bool" where
  "isInsidePuzzle x y shape =
     (case Type shape of
        PuzzleTypeTriangle \<Rightarrow> isInsideTriangle x y
      | PuzzleTypeHexagon \<Rightarrow> isInsideHexagon x y
      | PuzzleTypeTrapezoid \<Rightarrow> isInsideTrapezoid x y
      | PuzzleTypeStar \<Rightarrow> isInsideStar x y)"

definition getMaskFile :: "PuzzleType \<Rightarrow> string" where
  "getMaskFile shapeType =
     (case shapeType of
        PuzzleTypeTriangle \<Rightarrow> ''mask/triangle.png''
      | PuzzleTypeHexagon \<Rightarrow> ''mask/hexagon.png''
      | PuzzleTypeTrapezoid \<Rightarrow> ''mask/trapezoid.png''
      | PuzzleTypeStar \<Rightarrow> ''mask/star.png'')"

text \<open>
  \<open>files\<close> maps the path of a mask asset to the decoded image, and is undefined where
  opening or decoding the file fails.
\<close>

definition loadMaskFromFile :: "(string \<rightharpoonup> Image) \<Rightarrow> string \<Rightarrow> error + AlphaImage" where
  "loadMaskFromFile files filename =
     (case files filename of
        None \<Rightarrow> Inl ErrOpen
      | Some img \<Rightarrow>
          (let resizedImg = ResizeImage img PuzzleWidth PuzzleHeight;
               msk = NewAlpha PuzzleWidth PuzzleHeight
           in Inr (for_yx PuzzleHeight PuzzleWidth
                (\<lambda>x y msk.
                   (let c = RGBAAt resizedImg x y;
                        a = RGBA16 (A c);
                        alpha8 = (ucast (drop_bit 8 a) :: 8 word)
                    in SetAlpha msk x y alpha8)) msk)))"

definition GeneratePuzzleMask :: "(string \<rightharpoonup> Image) \<Rightarrow> PuzzleShape \<Rightarrow> AlphaImage" where
  "GeneratePuzzleMask files shape =
     (let maskFile = getMaskFile (Type shape);
          loaded = (if maskFile \<noteq> [] then loadMaskFromFile files maskFile else Inl ErrOpen)
      in case loaded of
           Inr msk \<Rightarrow> msk
         | Inl err \<Rightarrow>
             (let msk = NewAlpha PuzzleWidth PuzzleHeight
              in for_yx PuzzleHeight PuzzleWidth
                   (\<lambda>x y msk.
                      if isInsidePuzzle x y shape
                      then SetAlpha msk x y 255
                      else SetAlpha msk x y 0) msk))"

subsection \<open>The procedural masks\<close>

lemma tri_apex: "isInsideTriangle 35 0"
  by (simp add: isInsideTriangle_def PuzzleWidth_def PuzzleHeight_def)

lemma tri_mid: "isInsideTriangle 35 30"
  by (simp add: isInsideTriangle_def PuzzleWidth_def PuzzleHeight_def)

lemma tri_bounds:
  assumes "isInsideTriangle x y"
  shows "8 \<le> x \<and> x \<le> 61 \<and> y < 62 \<and> (y = 0 \<longrightarrow> x = 35)"
  using assms
  by (auto simp: isInsideTriangle_def PuzzleWidth_def PuzzleHeight_def Let_def split: if_splits)

lemma trap_mid: "isInsideTrapezoid 35 35"
  by (simp add: isInsideTrapezoid_def PuzzleWidth_def PuzzleHeight_def)

lemma trap_bounds:
  assumes "isInsideTrapezoid x y"
  shows "10 \<le> x \<and> x \<le> 60 \<and> 10 \<le> y \<and> y \<le> 60"
proof -
  define u where "u = real_of_int (x - 35)"
  define v where "v = real_of_int (y - 35)"
  from assms have 1: "\<bar>v\<bar> \<le> 25" "\<bar>u\<bar> \<le> (30 + 20 * ((v + 25) / 50)) / 2"
    by (auto simp: isInsideTrapezoid_def PuzzleWidth_def PuzzleHeight_def Let_def u_def v_def
        split: if_splits)
  have "(30 + 20 * ((v + 25) / 50)) / 2 = 20 + v / 5" by (simp add: field_simps)
  with 1 have "\<bar>u\<bar> \<le> 25" by linarith
  with 1 have "\<bar>real_of_int (x - 35)\<bar> \<le> 25" "\<bar>real_of_int (y - 35)\<bar> \<le> 25"
    by (simp_all add: u_def v_def)
  then show ?thesis by linarith
qed

lemma upt6: "[0..<6] = [0, 1, 2, 3, 4, 5]"
  by (simp add: upt_rec)

lemma hex_mid: "isInsideHexagon 35 35"
  by (simp add: isInsideHexagon_def hexagon_vertices_def upt6 PuzzleWidth_def PuzzleHeight_def Let_def)

lemma hex_bounds:
  assumes "isInsideHexagon x y"
  shows "10 \<le> x \<and> x \<le> 60 \<and> 10 \<le> y \<and> y \<le> 60"
proof -
  define t where "t = real_of_int x * (sqrt 3 * 25)"
  have s: "0 < sqrt 3" "sqrt 3 \<le> 2"
    by (simp_all add: real_le_lsqrt)
  from assms have c:
    "\<not> 875 + (real_of_int y * 25 / 2 + sqrt 3 * 750) < real_of_int y * 25 + (875 / 2 + t / 2)"
    "\<not> 875 + sqrt 3 * 2375 / 4 < real_of_int y * 25 + sqrt 3 * 1125 / 4"
    "\<not> 875 / 2 + t / 2 < sqrt 3 * 125 + real_of_int y * 25 / 2"
    "\<not> real_of_int y * 25 / 2 + t / 2 < sqrt 3 * 125 + 875 / 2"
    "\<not> real_of_int y * 50 + sqrt 3 * 625 < 1750"
    "\<not> real_of_int y * 25 + (875 / 2 + sqrt 3 * 750) < 875 + (real_of_int y * 25 / 2 + t / 2)"
    unfolding isInsideHexagon_def hexagon_vertices_def upt6 Let_def t_def
    by (simp_all add: PuzzleWidth_def PuzzleHeight_def algebra_simps)
  from c(1) c(6) have "t \<le> 60 * (sqrt 3 * 25)" by linarith
  then have x1: "real_of_int x \<le> 60" using s(1) by (simp add: t_def)
  from c(3) c(4) have "10 * (sqrt 3 * 25) \<le> t" by linarith
  then have x2: "10 \<le> real_of_int x" using s(1) by (simp add: t_def)
  from c(2) c(5) s(2) have "real_of_int y \<le> 60" "10 \<le> real_of_int y" by linarith+
  with x1 x2 show ?thesis by linarith
qed

lemma star_le:
  fixes d :: real
  assumes "d \<le> i + (o' - i) * (1 - \<bar>t\<bar> / h)" "0 < h" "i \<le> o'"
  shows "d \<le> o'"
proof -
  have "0 \<le> \<bar>t\<bar> / h" using assms(2) by simp
  then have "(o' - i) * (1 - \<bar>t\<bar> / h) \<le> (o' - i) * 1"
    using assms(3) by (intro mult_left_mono) simp_all
  with assms(1) show ?thesis by simp
qed

lemma star_bounds:
  assumes "isInsideStar x y"
  shows "8 \<le> x \<and> x \<le> 62 \<and> 8 \<le> y \<and> y \<le> 62"
proof -
  define u where "u = real_of_int (x - PuzzleWidth div 2)"
  define v where "v = real_of_int (y - PuzzleHeight div 2)"
  have "sqrt (u * u + v * v) \<le> real_of_int (PuzzleWidth div 2 - 8)"
    using assms unfolding isInsideStar_def Let_def u_def v_def
    by (rule star_le) (simp_all add: PuzzleWidth_def)
  then have d: "sqrt (u\<^sup>2 + v\<^sup>2) \<le> 27"
    by (simp add: PuzzleWidth_def power2_eq_square)
  have "\<bar>u\<bar> \<le> sqrt (u\<^sup>2 + v\<^sup>2)" "\<bar>v\<bar> \<le> sqrt (u\<^sup>2 + v\<^sup>2)"
    by (simp_all add: real_le_rsqrt)
  with d have "\<bar>u\<bar> \<le> 27" "\<bar>v\<bar> \<le> 27" by linarith+
  then show ?thesis
    unfolding u_def v_def PuzzleWidth_def PuzzleHeight_def by simp linarith
qed

lemma star_mid: "isInsideStar 35 35"
proof -
  have a: "Atan2 0 0 = 0" by (simp add: Atan2_def)
  have q: "pi / 2 / (2 * pi / 5) = 5 / 4" by (simp add: field_simps)
  have t: "trunc (5 / 4) = 1" by (simp add: trunc_def)
  have n: "\<not> 2 * pi \<le> pi / 2" using pi_gt_zero by linarith
  have h: "\<bar>pi / 2 - 2 * pi / 5 - pi / 5\<bar> / (pi / 5) = 1 / 2"
  proof -
    have "pi / 2 - 2 * pi / 5 - pi / 5 = - (pi / 10)" by (simp add: field_simps)
    then show ?thesis using pi_gt_zero by (simp add: field_simps)
  qed
  show ?thesis
    unfolding isInsideStar_def Let_def
    by (simp add: PuzzleWidth_def PuzzleHeight_def a q t n h)
qed

lemma GeneratePuzzleMask_procedural:
  assumes "files (getMaskFile (Type shape)) = None"
  shows "AlphaAt (GeneratePuzzleMask files shape) a b =
           (if inside PuzzleWidth PuzzleHeight a b \<and> isInsidePuzzle a b shape then 255 else 0)"
proof -
  have "GeneratePuzzleMask files shape =
      for_yx PuzzleHeight PuzzleWidth
        (\<lambda>x y msk. SetAlpha msk x y (if isInsidePuzzle x y shape then 255 else 0))
        (NewAlpha PuzzleWidth PuzzleHeight)"
    using assms
    by (simp add: GeneratePuzzleMask_def loadMaskFromFile_def Let_def if_distrib [of "SetAlpha _ _ _"] cong: if_cong)
  then show ?thesis
    by (simp add: for_yx_SetAlpha) (simp add: NewAlpha_def AlphaAt_def)
qed

text \<open>
  C8 as stated fails for the triangle: the procedural triangle mask has its apex, the
  pixel \<open>(35, 0)\<close>, in row 0 of the frame.
\<close>

theorem triangle_apex_on_top_row:
  "0 < AlphaAt (GeneratePuzzleMask Map.empty (shape_of PuzzleTypeTriangle)) 35 0"
  by (simp add: GeneratePuzzleMask_procedural shape_of_def isInsidePuzzle_def tri_apex)
     (simp add: inside_def PuzzleWidth_def PuzzleHeight_def)

lemma isInsidePuzzle_margins:
  assumes "isInsidePuzzle a b shape"
  shows "0 < a \<and> a < 69 \<and> b < 69 \<and> (b \<le> 0 \<longrightarrow> Type shape = PuzzleTypeTriangle \<and> (b = 0 \<longrightarrow> a = 35))"
proof (cases "Type shape")
  case PuzzleTypeTriangle
  with assms tri_bounds [of a b] show ?thesis by (simp add: isInsidePuzzle_def)
next
  case PuzzleTypeHexagon
  with assms hex_bounds [of a b] show ?thesis by (simp add: isInsidePuzzle_def)
next
  case PuzzleTypeTrapezoid
  with assms trap_bounds [of a b] show ?thesis by (simp add: isInsidePuzzle_def)
next
  case PuzzleTypeStar
  with assms star_bounds [of a b] show ?thesis by (simp add: isInsidePuzzle_def)
qed

lemma isInsidePuzzle_nonempty:
  "\<exists>a b. inside PuzzleWidth PuzzleHeight a b \<and> isInsidePuzzle a b shape"
proof (cases "Type shape")
  case PuzzleTypeTriangle
  then have "inside PuzzleWidth PuzzleHeight 35 30 \<and> isInsidePuzzle 35 30 shape"
    by (simp add: isInsidePuzzle_def tri_mid inside_def PuzzleWidth_def PuzzleHeight_def)
  then show ?thesis by blast
next
  case PuzzleTypeHexagon
  then have "inside PuzzleWidth PuzzleHeight 35 35 \<and> isInsidePuzzle 35 35 shape"
    by (simp add: isInsidePuzzle_def hex_mid inside_def PuzzleWidth_def PuzzleHeight_def)
  then show ?thesis by blast
next
  case PuzzleTypeTrapezoid
  then have "inside PuzzleWidth PuzzleHeight 35 35 \<and> isInsidePuzzle 35 35 shape"
    by (simp add: isInsidePuzzle_def trap_mid inside_def PuzzleWidth_def PuzzleHeight_def)
  then show ?thesis by blast
next
  case PuzzleTypeStar
  then have "inside PuzzleWidth PuzzleHeight 35 35 \<and> isInsidePuzzle 35 35 shape"
    by (simp add: isInsidePuzzle_def star_mid inside_def PuzzleWidth_def PuzzleHeight_def)
  then show ?thesis by blast
qed

text \<open>
  C8, amended. For each of the four shape kinds the procedural mask has a non-empty
  footprint, and no pixel of the footprint lies in column 0, column 69 or row 69; the
  footprint meets row 0 only for the triangle, and there only in the apex pixel
  \<open>(35, 0)\<close>. The triangle predicate has a bottom and a side margin and no top margin.
\<close>

theorem procedural_mask_margins:
  assumes "files (getMaskFile (Type shape)) = None"
  shows "(\<exists>a b. 0 < AlphaAt (GeneratePuzzleMask files shape) a b) \<and>
         (\<forall>a b. 0 < AlphaAt (GeneratePuzzleMask files shape) a b \<longrightarrow>
            0 < a \<and> a < 69 \<and> 0 \<le> b \<and> b < 69 \<and>
            (b = 0 \<longrightarrow> Type shape = PuzzleTypeTriangle \<and> a = 35))"
proof -
  note px = GeneratePuzzleMask_procedural [of files shape, OF assms]
  have "\<exists>a b. 0 < AlphaAt (GeneratePuzzleMask files shape) a b"
    using isInsidePuzzle_nonempty [of shape] by (auto simp: px)
  moreover have "0 < a \<and> a < 69 \<and> 0 \<le> b \<and> b < 69 \<and>
            (b = 0 \<longrightarrow> Type shape = PuzzleTypeTriangle \<and> a = 35)"
    if "0 < AlphaAt (GeneratePuzzleMask files shape) a b" for a b
  proof -
    from that have "inside PuzzleWidth PuzzleHeight a b" "isInsidePuzzle a b shape"
      by (auto simp: px split: if_splits)
    then show ?thesis
      using isInsidePuzzle_margins [of a b shape] by (auto simp: inside_def)
  qed
  ultimately show ?thesis by blast
qed

theorem procedural_mask_margins_witness:
  "Map.empty (getMaskFile (Type (shape_of PuzzleTypeHexagon))) = (None :: Image option) \<and>
   (\<exists>a b. 0 < AlphaAt (GeneratePuzzleMask Map.empty (shape_of PuzzleTypeHexagon)) a b) \<and>
   (\<forall>a. AlphaAt (GeneratePuzzleMask Map.empty (shape_of PuzzleTypeHexagon)) a 0 = 0)"
proof -
  have h: "Map.empty (getMaskFile (Type (shape_of PuzzleTypeHexagon))) = (None :: Image option)"
    by simp
  have t: "Type (shape_of PuzzleTypeHexagon) \<noteq> PuzzleTypeTriangle"
    by (simp add: shape_of_def)
  have "AlphaAt (GeneratePuzzleMask Map.empty (shape_of PuzzleTypeHexagon)) a 0 = 0" for a
    using procedural_mask_margins [of Map.empty "shape_of PuzzleTypeHexagon", OF h] t
    by (metis word_gt_0)
  with procedural_mask_margins [of Map.empty "shape_of PuzzleTypeHexagon", OF h] show ?thesis by simp
qed

section \<open>Hole compositor (service.go, puzzle.go)\<close>

definition kernel :: "nat list list" where
  "kernel = [[1, 2, 1], [2, 4, 2], [1, 2, 1]]"

definition weight :: "int \<Rightarrow> int \<Rightarrow> nat" where
  "weight ky kx = kernel ! nat (ky + 1) ! nat (kx + 1)"

text \<open>The two clamping statements \<open>if v < 0 { v = 0 }; if v >= n { v = n - 1 }\<close>.\<close>

definition clampTo :: "int \<Rightarrow> int \<Rightarrow> int" where
  "clampTo n v = (let v = (if v < 0 then 0 else v) in if v \<ge> n then n - 1 else v)"

text \<open>
  The white wash of \<open>CreatePuzzleHoleWithMask\<close>:
  \<open>uint8(float64(c.R)*0.5 + 255*0.5)\<close> and \<open>uint8(float64(c.G)*0.6 + 255*0.4)\<close>. The
  constants \<open>255*0.5\<close> and \<open>255*0.4\<close> are exact (127.5 and 102), the products stay
  within 2^-45 of a multiple of 1/10, and the conversion truncates, so the results are
  the integer quotients below.
\<close>

definition hole_wash :: "RGBA \<Rightarrow> RGBA" where
  "hole_wash c =
     \<lparr>R = word_of_nat ((unat (R c) + 255) div 2),
      G = word_of_nat (unat (G c) * 6 div 10 + 102),
      B = word_of_nat (unat (B c) * 6 div 10 + 102),
      A = 255\<rparr>"

definition hole_body :: "AlphaImage \<Rightarrow> int \<Rightarrow> int \<Rightarrow> int \<Rightarrow> int \<Rightarrow> Image \<Rightarrow> Image" where
  "hole_body msk x y px py result =
     (let targetX = x + px; targetY = y + py in
      if targetX < 0 \<or> targetX \<ge> Dx result \<or> targetY < 0 \<or> targetY \<ge> Dy result
      then result
      else
        (let alpha = AlphaAt msk px py in
         if alpha > 0
         then (let c = RGBAAt result targetX targetY in SetRGBA result targetX targetY (hole_wash c))
         else result))"

definition isHoleEdge :: "int \<Rightarrow> int \<Rightarrow> AlphaImage \<Rightarrow> bool" where
  "isHoleEdge x y msk =
     list_ex (\<lambda>dy. list_ex (\<lambda>dx.
        \<not> (dx = 0 \<and> dy = 0) \<and>
        (let nx = x + dx; ny = y + dy in
         (nx < 0 \<or> nx \<ge> PuzzleWidth \<or> ny < 0 \<or> ny \<ge> PuzzleHeight) \<or> AlphaAt msk nx ny = 0))
       [-1..1]) [-1..1]"

definition borderColor :: RGBA where
  "borderColor = \<lparr>R = 0, G = 0, B = 0, A = 0\<rparr>"

definition addHoleBorder_body :: "AlphaImage \<Rightarrow> int \<Rightarrow> int \<Rightarrow> int \<Rightarrow> int \<Rightarrow> Image \<Rightarrow> Image" where
  "addHoleBorder_body msk x y px py result =
     (if AlphaAt msk px py > 0
      then
        (if isHoleEdge px py msk
         then
           (let targetX = x + px; targetY = y + py in
            if targetX \<ge> 0 \<and> targetX < Dx result \<and> targetY \<ge> 0 \<and> targetY < Dy result
            then SetRGBA result targetX targetY borderColor
            else result)
         else result)
      else result)"

definition addHoleBorder :: "Image \<Rightarrow> AlphaImage \<Rightarrow> int \<Rightarrow> int \<Rightarrow> Image" where
  "addHoleBorder result msk x y = for_yx PuzzleHeight PuzzleWidth (addHoleBorder_body msk x y) result"

text \<open>
  The weighted sum of one channel over the 3 by 3 neighbourhood of \<open>(targetX, targetY)\<close>,
  read from \<open>blurred\<close> with the coordinates clamped to the bounds \<open>w\<close>, \<open>h\<close> of \<open>result\<close>.
  The sums are integers below 2^12, so the \<open>float64\<close> accumulation and the division by
  16 are exact and \<open>uint8(sum / 16)\<close> is the integer quotient.
\<close>

definition hole_sum :: "(RGBA \<Rightarrow> 8 word) \<Rightarrow> Image \<Rightarrow> int \<Rightarrow> int \<Rightarrow> int \<Rightarrow> int \<Rightarrow> nat" where
  "hole_sum ch blurred w h targetX targetY =
     fold (\<lambda>ky s. fold (\<lambda>kx s.
        (let nx = clampTo w (targetX + kx);
             ny = clampTo h (targetY + ky);
             c = RGBAAt blurred nx ny
         in s + unat (ch c) * weight ky kx)) [-1..1] s) [-1..1] 0"

definition hole_blurred :: "Image \<Rightarrow> int \<Rightarrow> int \<Rightarrow> int \<Rightarrow> int \<Rightarrow> RGBA" where
  "hole_blurred blurred w h targetX targetY =
     \<lparr>R = word_of_nat (hole_sum R blurred w h targetX targetY div 16),
      G = word_of_nat (hole_sum G blurred w h targetX targetY div 16),
      B = word_of_nat (hole_sum B blurred w h targetX targetY div 16),
      A = 255\<rparr>"

definition blurHole_body :: "Image \<Rightarrow> AlphaImage \<Rightarrow> int \<Rightarrow> int \<Rightarrow> int \<Rightarrow> int \<Rightarrow> Image \<Rightarrow> Image" where
  "blurHole_body blurred msk offsetX offsetY px py result =
     (if AlphaAt msk px py > 0
      then
        (let targetX = offsetX + px; targetY = offsetY + py in
         if targetX < 0 \<or> targetX \<ge> Dx result \<or> targetY < 0 \<or> targetY \<ge> Dy result
         then result
         else SetRGBA result targetX targetY
                (hole_blurred blurred (Dx result) (Dy result) targetX targetY))
      else result)"

text \<open>
  One iteration of the blur: the loop writes \<open>result\<close> and reads \<open>blurred\<close>, which is
  then refreshed from \<open>result\<close>. \<open>blurred\<close> is a buffer private to the function.
\<close>

definition blurHole_iteration :: "AlphaImage \<Rightarrow> int \<Rightarrow> int \<Rightarrow> Image \<times> Image \<Rightarrow> Image \<times> Image" where
  "blurHole_iteration msk offsetX offsetY = (\<lambda>(result, blurred).
     (let result = for_yx PuzzleHeight PuzzleWidth (blurHole_body blurred msk offsetX offsetY) result
      in (result, Draw blurred result)))"

definition applyGaussianBlurToHole :: "Image \<Rightarrow> AlphaImage \<Rightarrow> int \<Rightarrow> int \<Rightarrow> Image" where
  "applyGaussianBlurToHole result msk offsetX offsetY =
     (let blurred = Draw (NewRGBA (Dx result) (Dy result)) result
      in fst (fold (\<lambda>iteration. blurHole_iteration msk offsetX offsetY) [0..1::int] (result, blurred)))"

text \<open>
  The images the compositor is given and the one it returns are objects of a heap: a
  list of images, addressed by position. \<open>image.NewRGBA\<close> allocates at the end of the
  list. All writes of \<open>CreatePuzzleHoleWithMask\<close> go to the image it allocates.
\<close>

type_synonym heap = "Image list"

definition CreatePuzzleHoleWithMask ::
  "heap \<Rightarrow> nat \<Rightarrow> int \<Rightarrow> int \<Rightarrow> AlphaImage \<Rightarrow> nat \<times> heap" where
  "CreatePuzzleHoleWithMask h bgImage x y msk =
     (let result = length h;
          h = h @ [NewRGBA (Dx (h ! bgImage)) (Dy (h ! bgImage))];
          h = h[result := Draw (h ! result) (h ! bgImage)];
          h = h[result := for_yx PuzzleHeight PuzzleWidth (hole_body msk x y) (h ! result)];
          h = h[result := addHoleBorder (h ! result) msk x y];
          h = h[result := applyGaussianBlurToHole (h ! result) msk x y]
      in (result, h))"

text \<open>The 70 by 70 window of the canvas that a placement \<open>(x, y)\<close> covers.\<close>

definition in_window :: "int \<Rightarrow> int \<Rightarrow> int \<Rightarrow> int \<Rightarrow> bool" where
  "in_window x y a b = (x \<le> a \<and> a < x + PuzzleWidth \<and> y \<le> b \<and> b < y + PuzzleHeight)"

text \<open>
  For comparison, the compositor with the border pass left out: the same statements
  without the call of \<open>addHoleBorder\<close>.
\<close>

definition CreatePuzzleHole_without_border ::
  "heap \<Rightarrow> nat \<Rightarrow> int \<Rightarrow> int \<Rightarrow> AlphaImage \<Rightarrow> nat \<times> heap" where
  "CreatePuzzleHole_without_border h bgImage x y msk =
     (let result = length h;
          h = h @ [NewRGBA (Dx (h ! bgImage)) (Dy (h ! bgImage))];
          h = h[result := Draw (h ! result) (h ! bgImage)];
          h = h[result := for_yx PuzzleHeight PuzzleWidth (hole_body msk x y) (h ! result)];
          h = h[result := applyGaussianBlurToHole (h ! result) msk x y]
      in (result, h))"

subsection \<open>What each pass does to a pixel\<close>

lemma hole_body_pointwise:
  "pointwise x y (\<lambda>w h px py c. if 0 < AlphaAt msk px py then hole_wash c else c) (hole_body msk x y)"
  unfolding pointwise_def
proof (intro allI)
  fix px py img
  show "hole_body msk x y px py img =
        SetRGBA img (x + px) (y + py)
          (if 0 < AlphaAt msk px py then hole_wash (RGBAAt img (x + px) (y + py))
           else RGBAAt img (x + px) (y + py))"
  proof (cases "inside (Dx img) (Dy img) (x + px) (y + py)")
    case True
    then show ?thesis
      by (auto simp: hole_body_def Let_def inside_def SetRGBA_same)
  next
    case False
    then have "hole_body msk x y px py img = img"
      by (auto simp: hole_body_def Let_def inside_def)
    then show ?thesis using False by (simp add: SetRGBA_outside)
  qed
qed

lemma addHoleBorder_body_pointwise:
  "pointwise x y (\<lambda>w h px py c. if 0 < AlphaAt msk px py \<and> isHoleEdge px py msk then borderColor else c)
     (addHoleBorder_body msk x y)"
  unfolding pointwise_def
proof (intro allI)
  fix px py img
  show "addHoleBorder_body msk x y px py img =
        SetRGBA img (x + px) (y + py)
          (if 0 < AlphaAt msk px py \<and> isHoleEdge px py msk then borderColor
           else RGBAAt img (x + px) (y + py))"
  proof (cases "inside (Dx img) (Dy img) (x + px) (y + py)")
    case True
    then show ?thesis
      by (auto simp: addHoleBorder_body_def Let_def inside_def SetRGBA_same)
  next
    case False
    then have "addHoleBorder_body msk x y px py img = img"
      by (auto simp: addHoleBorder_body_def Let_def inside_def)
    then show ?thesis using False by (simp add: SetRGBA_outside)
  qed
qed

lemma blurHole_body_pointwise:
  "pointwise ox oy
     (\<lambda>w h px py c. if 0 < AlphaAt msk px py then hole_blurred blurred w h (ox + px) (oy + py) else c)
     (blurHole_body blurred msk ox oy)"
  unfolding pointwise_def
proof (intro allI)
  fix px py img
  show "blurHole_body blurred msk ox oy px py img =
        SetRGBA img (ox + px) (oy + py)
          (if 0 < AlphaAt msk px py then hole_blurred blurred (Dx img) (Dy img) (ox + px) (oy + py)
           else RGBAAt img (ox + px) (oy + py))"
  proof (cases "inside (Dx img) (Dy img) (ox + px) (oy + py)")
    case True
    then show ?thesis
      by (auto simp: blurHole_body_def Let_def inside_def SetRGBA_same)
  next
    case False
    then have "blurHole_body blurred msk ox oy px py img = img"
      by (auto simp: blurHole_body_def Let_def inside_def)
    then show ?thesis using False by (simp add: SetRGBA_outside)
  qed
qed

lemma inside_window: "inside PuzzleWidth PuzzleHeight (a - x) (b - y) = in_window x y a b"
  by (auto simp: inside_def in_window_def)

lemmas hole_wash_px =
  for_yx_pointwise [OF hole_body_pointwise, of PuzzleHeight PuzzleWidth, unfolded inside_window]

lemmas hole_border_px =
  for_yx_pointwise [OF addHoleBorder_body_pointwise, of PuzzleHeight PuzzleWidth,
    unfolded inside_window, folded addHoleBorder_def]

lemmas hole_blur_px =
  for_yx_pointwise [OF blurHole_body_pointwise, of PuzzleHeight PuzzleWidth, unfolded inside_window]

lemma hole_sum_cong:
  assumes "\<And>a b. RGBAAt i a b = RGBAAt j a b"
  shows "hole_sum ch i w h x y = hole_sum ch j w h x y"
  by (simp add: hole_sum_def assms)

lemma hole_blurred_cong:
  assumes "\<And>a b. RGBAAt i a b = RGBAAt j a b"
  shows "hole_blurred i w h x y = hole_blurred j w h x y"
  by (simp add: hole_blurred_def hole_sum_cong [OF assms])

text \<open>The first iteration of the blur, and then both.\<close>

definition blurHole_once :: "Image \<Rightarrow> AlphaImage \<Rightarrow> int \<Rightarrow> int \<Rightarrow> Image" where
  "blurHole_once result msk ox oy =
     for_yx PuzzleHeight PuzzleWidth
       (blurHole_body (Draw (NewRGBA (Dx result) (Dy result)) result) msk ox oy) result"

lemma blurHole_once_px:
  "Dx (blurHole_once result msk ox oy) = Dx result"
  "Dy (blurHole_once result msk ox oy) = Dy result"
  "RGBAAt (blurHole_once result msk ox oy) a b =
     (if in_window ox oy a b \<and> inside (Dx result) (Dy result) a b \<and> 0 < AlphaAt msk (a - ox) (b - oy)
      then hole_blurred result (Dx result) (Dy result) a b else RGBAAt result a b)"
proof -
  let ?b0 = "Draw (NewRGBA (Dx result) (Dy result)) result"
  have c: "hole_blurred ?b0 w h a b = hole_blurred result w h a b" for w h
    by (rule hole_blurred_cong) (simp add: RGBAAt_copy)
  note px = hole_blur_px [where x=ox and y=oy and msk=msk and blurred="?b0" and img=result
      and a=a and b=b]
  show "Dx (blurHole_once result msk ox oy) = Dx result"
    "Dy (blurHole_once result msk ox oy) = Dy result"
    using px by (simp_all add: blurHole_once_def)
  show "RGBAAt (blurHole_once result msk ox oy) a b =
     (if in_window ox oy a b \<and> inside (Dx result) (Dy result) a b \<and> 0 < AlphaAt msk (a - ox) (b - oy)
      then hole_blurred result (Dx result) (Dy result) a b else RGBAAt result a b)"
    using px c by (simp add: blurHole_once_def)
qed

lemma applyGaussianBlurToHole_px:
  "Dx (applyGaussianBlurToHole result msk ox oy) = Dx result"
  "Dy (applyGaussianBlurToHole result msk ox oy) = Dy result"
  "RGBAAt (applyGaussianBlurToHole result msk ox oy) a b =
     (if in_window ox oy a b \<and> inside (Dx result) (Dy result) a b \<and> 0 < AlphaAt msk (a - ox) (b - oy)
      then hole_blurred (blurHole_once result msk ox oy) (Dx result) (Dy result) a b
      else RGBAAt result a b)"
proof -
  let ?b0 = "Draw (NewRGBA (Dx result) (Dy result)) result"
  let ?r1 = "blurHole_once result msk ox oy"
  let ?b1 = "Draw ?b0 ?r1"
  let ?r2 = "for_yx PuzzleHeight PuzzleWidth (blurHole_body ?b1 msk ox oy) ?r1"
  have unf: "applyGaussianBlurToHole result msk ox oy = ?r2"
    by (simp add: applyGaussianBlurToHole_def blurHole_iteration_def Let_def blurHole_once_def upto.simps)
  have c: "hole_blurred ?b1 w h a b = hole_blurred ?r1 w h a b" for w h
    by (rule hole_blurred_cong) (simp add: RGBAAt_Draw_same blurHole_once_px)
  note px = hole_blur_px [where x=ox and y=oy and msk=msk and blurred="?b1" and img="?r1"
      and a=a and b=b]
  show "Dx (applyGaussianBlurToHole result msk ox oy) = Dx result"
    "Dy (applyGaussianBlurToHole result msk ox oy) = Dy result"
    unfolding unf using px by (simp_all add: blurHole_once_px)
  show "RGBAAt (applyGaussianBlurToHole result msk ox oy) a b =
     (if in_window ox oy a b \<and> inside (Dx result) (Dy result) a b \<and> 0 < AlphaAt msk (a - ox) (b - oy)
      then hole_blurred (blurHole_once result msk ox oy) (Dx result) (Dy result) a b
      else RGBAAt result a b)"
    unfolding unf using px c by (simp add: blurHole_once_px)
qed

lemma hole_stages_outside:
  assumes "\<not> in_window x y a b"
  shows "RGBAAt (applyGaussianBlurToHole (addHoleBorder
            (for_yx PuzzleHeight PuzzleWidth (hole_body msk x y) (Draw (NewRGBA (Dx bg) (Dy bg)) bg))
              msk x y) msk x y) a b
         = RGBAAt bg a b"
  using assms
  by (simp add: applyGaussianBlurToHole_px hole_border_px hole_wash_px RGBAAt_copy)

lemma CreatePuzzleHoleWithMask_result:
  assumes "bgImage < length h"
  shows "CreatePuzzleHoleWithMask h bgImage x y msk =
     (length h, h @ [applyGaussianBlurToHole (addHoleBorder
        (for_yx PuzzleHeight PuzzleWidth (hole_body msk x y)
           (Draw (NewRGBA (Dx (h ! bgImage)) (Dy (h ! bgImage))) (h ! bgImage))) msk x y) msk x y])"
  using assms by (simp add: CreatePuzzleHoleWithMask_def Let_def nth_append)

lemma CreatePuzzleHole_without_border_result:
  assumes "bgImage < length h"
  shows "CreatePuzzleHole_without_border h bgImage x y msk =
     (length h, h @ [applyGaussianBlurToHole
        (for_yx PuzzleHeight PuzzleWidth (hole_body msk x y)
           (Draw (NewRGBA (Dx (h ! bgImage)) (Dy (h ! bgImage))) (h ! bgImage))) msk x y])"
  using assms by (simp add: CreatePuzzleHole_without_border_def Let_def nth_append)

subsection \<open>The canvas and the pixels outside the window\<close>

text \<open>
  C9. \<open>CreatePuzzleHoleWithMask\<close> leaves its input canvas unchanged: the canvas, like
  every object the heap held before the call, has the same contents after it, and the
  result is another object, of the same bounds. Every pixel of the result outside the window
  \<open>[x, x + 70) \<times> [y, y + 70)\<close> equals the pixel of the canvas.
\<close>

theorem CreatePuzzleHoleWithMask_frame:
  assumes "bgImage < length h"
    and "CreatePuzzleHoleWithMask h bgImage x y msk = (result, h')"
  shows "h' ! bgImage = h ! bgImage \<and> take (length h) h' = h \<and>
         result \<noteq> bgImage \<and> result < length h' \<and>
         Dx (h' ! result) = Dx (h ! bgImage) \<and> Dy (h' ! result) = Dy (h ! bgImage) \<and>
         (\<forall>a b. \<not> in_window x y a b \<longrightarrow> RGBAAt (h' ! result) a b = RGBAAt (h ! bgImage) a b)"
proof -
  note r = CreatePuzzleHoleWithMask_result [OF assms(1), of x y msk]
  from assms(2) r have res: "result = length h" and h': "h' = h @ [applyGaussianBlurToHole (addHoleBorder
        (for_yx PuzzleHeight PuzzleWidth (hole_body msk x y)
           (Draw (NewRGBA (Dx (h ! bgImage)) (Dy (h ! bgImage))) (h ! bgImage))) msk x y) msk x y]"
    by simp_all
  have "h' ! bgImage = h ! bgImage"
    using assms(1) by (simp add: h' nth_append)
  moreover have "take (length h) h' = h"
    by (simp add: h')
  moreover have "result \<noteq> bgImage" "result < length h'"
    using assms(1) by (simp_all add: res h')
  moreover have "Dx (h' ! result) = Dx (h ! bgImage)" "Dy (h' ! result) = Dy (h ! bgImage)"
    by (simp_all add: res h' applyGaussianBlurToHole_px hole_border_px hole_wash_px)
  moreover have "\<not> in_window x y a b \<Longrightarrow> RGBAAt (h' ! result) a b = RGBAAt (h ! bgImage) a b" for a b
    by (simp add: res h' hole_stages_outside)
  ultimately show ?thesis by blast
qed

theorem CreatePuzzleHoleWithMask_frame_witness:
  "0 < length [plain 100 100 grey] \<and>
   snd (CreatePuzzleHoleWithMask [plain 100 100 grey] 0 10 10 dot_mask) ! 0 = plain 100 100 grey \<and>
   \<not> in_window 10 10 90 90 \<and>
   RGBAAt (snd (CreatePuzzleHoleWithMask [plain 100 100 grey] 0 10 10 dot_mask) !
             fst (CreatePuzzleHoleWithMask [plain 100 100 grey] 0 10 10 dot_mask)) 90 90 = grey"
proof -
  have l: "0 < length [plain 100 100 grey]" by simp
  have w: "\<not> in_window 10 10 90 90"
    by (simp add: in_window_def PuzzleWidth_def PuzzleHeight_def)
  show ?thesis
    using l w CreatePuzzleHoleWithMask_frame [OF l prod.collapse [symmetric], of 10 10 dot_mask]
    by (simp add: plain_at inside_def)
qed

subsection \<open>The border pass with the default border colour\<close>

lemma weights:
  "weight (-1) (-1) = 1" "weight (-1) 0 = 2" "weight (-1) 1 = 1"
  "weight 0 (-1) = 2" "weight 0 0 = 4" "weight 0 1 = 2"
  "weight 1 (-1) = 1" "weight 1 0 = 2" "weight 1 1 = 1"
  by (simp_all add: weight_def kernel_def)

lemma dot_edge: "isHoleEdge 1 1 dot_mask"
  by (simp add: isHoleEdge_def upto3 AlphaAt_def dot_mask_def inside_def PuzzleWidth_def PuzzleHeight_def)

lemma win0: "in_window 0 0 1 1" "inside 3 3 1 1"
  by (simp_all add: in_window_def inside_def PuzzleWidth_def PuzzleHeight_def)

lemma clamp3: "clampTo 3 0 = 0" "clampTo 3 1 = 1" "clampTo 3 2 = 2"
  by (simp_all add: clampTo_def)

text \<open>A 3 by 3 image that is \<open>grey\<close> but for its centre pixel.\<close>

definition spot :: "RGBA \<Rightarrow> int \<Rightarrow> int \<Rightarrow> RGBA" where
  "spot v a b = (if a = 1 \<and> b = 1 then v else if inside 3 3 a b then grey else Transparent)"

lemma hole_blurred_spot:
  assumes px: "\<And>a b. RGBAAt img a b = spot v a b"
  shows "hole_blurred img 3 3 1 1 =
     \<lparr>R = word_of_nat ((2400 + unat (R v) * 4) div 16),
      G = word_of_nat ((2400 + unat (G v) * 4) div 16),
      B = word_of_nat ((2400 + unat (B v) * 4) div 16),
      A = 255\<rparr>"
  by (simp add: hole_blurred_def hole_sum_def upto3 weights px spot_def clamp3 inside_def grey_def)

lemma wash_spot:
  "RGBAAt (for_yx PuzzleHeight PuzzleWidth (hole_body dot_mask 0 0)
            (Draw (NewRGBA 3 3) (plain 3 3 grey))) a b
     = spot \<lparr>R = 227, G = 222, B = 222, A = 255\<rparr> a b"
  by (simp add: hole_wash_px RGBAAt_Draw_same plain_at dot_alpha spot_def)
     (auto simp: in_window_def inside_def PuzzleWidth_def PuzzleHeight_def hole_wash_def grey_def)

lemma border_spot:
  assumes "Dx img = 3" "Dy img = 3" "\<And>a b. RGBAAt img a b = spot v a b"
  shows "RGBAAt (addHoleBorder img dot_mask 0 0) a b = spot borderColor a b"
  by (simp add: hole_border_px assms dot_alpha)
     (auto simp: spot_def dot_edge in_window_def inside_def PuzzleWidth_def PuzzleHeight_def)

lemma blur_once_spot:
  assumes "Dx img = 3" "Dy img = 3" "\<And>a b. RGBAAt img a b = spot v a b"
  shows "RGBAAt (blurHole_once img dot_mask 0 0) a b =
     spot \<lparr>R = word_of_nat ((2400 + unat (R v) * 4) div 16),
      G = word_of_nat ((2400 + unat (G v) * 4) div 16),
      B = word_of_nat ((2400 + unat (B v) * 4) div 16),
      A = 255\<rparr> a b"
proof -
  note hb = hole_blurred_spot [of img v, OF assms(3)]
  show ?thesis
    by (simp add: blurHole_once_px assms(1,2) assms(3) dot_alpha)
       (auto simp: spot_def hb in_window_def inside_def PuzzleWidth_def PuzzleHeight_def)
qed

lemma blurToHole_spot:
  assumes "Dx img = 3" "Dy img = 3" "\<And>a b. RGBAAt img a b = spot v a b"
  shows "RGBAAt (applyGaussianBlurToHole img dot_mask 0 0) 1 1 =
    \<lparr>R = word_of_nat ((2400 + unat (word_of_nat ((2400 + unat (R v) * 4) div 16) :: 8 word) * 4) div 16),
     G = word_of_nat ((2400 + unat (word_of_nat ((2400 + unat (G v) * 4) div 16) :: 8 word) * 4) div 16),
     B = word_of_nat ((2400 + unat (word_of_nat ((2400 + unat (B v) * 4) div 16) :: 8 word) * 4) div 16),
     A = 255\<rparr>"
proof -
  let ?v1 = "\<lparr>R = word_of_nat ((2400 + unat (R v) * 4) div 16),
      G = word_of_nat ((2400 + unat (G v) * 4) div 16),
      B = word_of_nat ((2400 + unat (B v) * 4) div 16),
      A = 255\<rparr> :: RGBA"
  have "hole_blurred (blurHole_once img dot_mask 0 0) 3 3 1 1 =
     \<lparr>R = word_of_nat ((2400 + unat (R ?v1) * 4) div 16),
      G = word_of_nat ((2400 + unat (G ?v1) * 4) div 16),
      B = word_of_nat ((2400 + unat (B ?v1) * 4) div 16),
      A = 255\<rparr>"
    by (rule hole_blurred_spot) (rule blur_once_spot [OF assms])
  then show ?thesis
    by (simp add: applyGaussianBlurToHole_px assms(1,2) win0 dot_alpha)
qed

text \<open>
  C5. With the default border colour (alpha 0) the border pass is meant to change
  nothing. \<open>addHoleBorder\<close> stores the colour \<open>(0, 0, 0, 0)\<close> into every edge pixel and
  the blur that follows reads it: on a grey 3 by 3 canvas with the one-pixel mask at
  \<open>(1, 1)\<close> the compositor returns \<open>(187, 187, 187, 255)\<close> at \<open>(1, 1)\<close>, and
  \<open>(201, 201, 201, 255)\<close> when the border pass is left out.
\<close>

theorem hole_border_darkens_edge:
  "RGBAAt (snd (CreatePuzzleHoleWithMask [plain 3 3 grey] 0 0 0 dot_mask) ! 1) 1 1
     = \<lparr>R = 187, G = 187, B = 187, A = 255\<rparr>
   \<and> RGBAAt (snd (CreatePuzzleHole_without_border [plain 3 3 grey] 0 0 0 dot_mask) ! 1) 1 1
     = \<lparr>R = 201, G = 201, B = 201, A = 255\<rparr>"
proof -
  let ?w = "for_yx PuzzleHeight PuzzleWidth (hole_body dot_mask 0 0) (Draw (NewRGBA 3 3) (plain 3 3 grey))"
  have dw: "Dx ?w = 3" "Dy ?w = 3" by (simp_all add: hole_wash_px)
  have db: "Dx (addHoleBorder ?w dot_mask 0 0) = 3" "Dy (addHoleBorder ?w dot_mask 0 0) = 3"
    by (simp_all add: hole_border_px dw)
  have 1: "RGBAAt (applyGaussianBlurToHole (addHoleBorder ?w dot_mask 0 0) dot_mask 0 0) 1 1
      = \<lparr>R = 187, G = 187, B = 187, A = 255\<rparr>"
    by (simp add: blurToHole_spot [OF db border_spot [OF dw wash_spot]] borderColor_def)
  have 2: "RGBAAt (applyGaussianBlurToHole ?w dot_mask 0 0) 1 1
      = \<lparr>R = 201, G = 201, B = 201, A = 255\<rparr>"
    by (simp add: blurToHole_spot [OF dw wash_spot])
  show ?thesis
    using 1 2
    by (simp add: CreatePuzzleHoleWithMask_result CreatePuzzleHole_without_border_result)
qed

section \<open>Piece extractor (service.go, puzzle.go)\<close>

definition extract_body :: "Image \<Rightarrow> int \<Rightarrow> int \<Rightarrow> AlphaImage \<Rightarrow> int \<Rightarrow> int \<Rightarrow> Image \<Rightarrow> Image" where
  "extract_body bgImage x y msk px py piece =
     (let alpha = AlphaAt msk px py in
      if alpha > 0
      then
        (let srcX = x + px; srcY = y + py in
         if srcX \<ge> 0 \<and> srcX < Dx bgImage \<and> srcY \<ge> 0 \<and> srcY < Dy bgImage
         then (let c = RGBAAt bgImage srcX srcY in SetRGBA piece px py c)
         else piece)
      else piece)"

definition isEdgeSimple :: "int \<Rightarrow> int \<Rightarrow> AlphaImage \<Rightarrow> bool" where
  "isEdgeSimple x y msk =
     list_ex (\<lambda>dy. list_ex (\<lambda>dx.
        \<not> (dx = 0 \<and> dy = 0) \<and>
        (let nx = x + dx; ny = y + dy in
         (nx < 0 \<or> nx \<ge> PuzzleWidth \<or> ny < 0 \<or> ny \<ge> PuzzleHeight) \<or> AlphaAt msk nx ny = 0))
       [-1..1]) [-1..1]"

definition simpleBorder_body :: "AlphaImage \<Rightarrow> int \<Rightarrow> int \<Rightarrow> Image \<Rightarrow> Image" where
  "simpleBorder_body msk px py piece =
     (if AlphaAt msk px py > 0
      then (if isEdgeSimple px py msk
            then SetRGBA piece px py \<lparr>R = 255, G = 255, B = 255, A = 255\<rparr>
            else piece)
      else piece)"

text \<open>
  \<open>antiAliasEdges\<close> (with \<open>smoothDiagonalEdges\<close> and \<open>globalSmooth\<close>) and \<open>add3DEffect\<close>
  blend colours in \<open>float64\<close> with \<open>math.Sqrt\<close> and \<open>math.Pow\<close>. They change the piece
  only through \<open>SetRGBA\<close>, so each is a transformation of the pixel buffer that leaves
  the bounds alone; which colours they store is left open here.
\<close>

record float_passes =
  antiAliasEdges :: "(int \<times> int \<Rightarrow> RGBA) \<Rightarrow> AlphaImage \<Rightarrow> (int \<times> int \<Rightarrow> RGBA)"
  add3DEffect :: "(int \<times> int \<Rightarrow> RGBA) \<Rightarrow> AlphaImage \<Rightarrow> (int \<times> int \<Rightarrow> RGBA)"

definition addSimpleBorder :: "float_passes \<Rightarrow> Image \<Rightarrow> AlphaImage \<Rightarrow> Image" where
  "addSimpleBorder fp piece msk =
     (let piece = for_yx PuzzleHeight PuzzleWidth (simpleBorder_body msk) piece
      in piece\<lparr>Pix := antiAliasEdges fp (Pix piece) msk\<rparr>)"

text \<open>
  The weighted sum of one channel for the blur of the piece: the coordinates of a tap
  are clamped to the 70 by 70 frame, and the tap counts when the mask is opaque there.
\<close>

definition piece_sum :: "(RGBA \<Rightarrow> 8 word) \<Rightarrow> Image \<Rightarrow> AlphaImage \<Rightarrow> int \<Rightarrow> int \<Rightarrow> nat" where
  "piece_sum ch piece msk px py =
     fold (\<lambda>ky s. fold (\<lambda>kx s.
        (let nx = clampTo PuzzleWidth (px + kx);
             ny = clampTo PuzzleHeight (py + ky)
         in if AlphaAt msk nx ny > 0
            then (let c = RGBAAt piece nx ny in s + unat (ch c) * weight ky kx)
            else s)) [-1..1] s) [-1..1] 0"

definition blurOnce_body :: "Image \<Rightarrow> AlphaImage \<Rightarrow> int \<Rightarrow> int \<Rightarrow> Image \<Rightarrow> Image" where
  "blurOnce_body piece msk px py blurred =
     (if AlphaAt msk px py > 0
      then SetRGBA blurred px py
             \<lparr>R = word_of_nat (piece_sum R piece msk px py div 16),
              G = word_of_nat (piece_sum G piece msk px py div 16),
              B = word_of_nat (piece_sum B piece msk px py div 16),
              A = 255\<rparr>
      else SetRGBA blurred px py \<lparr>R = 0, G = 0, B = 0, A = 0\<rparr>)"

definition applyGaussianBlurOnce :: "Image \<Rightarrow> AlphaImage \<Rightarrow> Image" where
  "applyGaussianBlurOnce piece msk =
     (let blurred = NewRGBA (Dx piece) (Dy piece);
          blurred = for_yx PuzzleHeight PuzzleWidth (blurOnce_body piece msk) blurred
      in Draw piece blurred)"

definition applyGaussianBlur :: "Image \<Rightarrow> AlphaImage \<Rightarrow> Image" where
  "applyGaussianBlur piece msk =
     fold (\<lambda>iteration piece. applyGaussianBlurOnce piece msk) [0..1::int] piece"

definition ExtractPuzzlePieceWithMask ::
  "float_passes \<Rightarrow> Image \<Rightarrow> int \<Rightarrow> int \<Rightarrow> AlphaImage \<Rightarrow> Image" where
  "ExtractPuzzlePieceWithMask fp bgImage x y msk =
     (let piece = NewRGBA PuzzleWidth PuzzleHeight;
          piece = DrawUniform piece Transparent;
          piece = for_yx PuzzleHeight PuzzleWidth (extract_body bgImage x y msk) piece;
          piece = addSimpleBorder fp piece msk;
          piece = piece\<lparr>Pix := add3DEffect fp (Pix piece) msk\<rparr>;
          piece = applyGaussianBlur piece msk
      in piece)"

text \<open>Float passes that change nothing, for testing.\<close>

definition no_float_passes :: float_passes where
  "no_float_passes = \<lparr>antiAliasEdges = (\<lambda>pix msk. pix), add3DEffect = (\<lambda>pix msk. pix)\<rparr>"

text \<open>
  The blur as the specification words it: a tap counts only when it lies in the frame
  and in the mask, and the weighted sum is divided by the sum of the weights of the taps
  that count.
\<close>

definition tap_valid :: "AlphaImage \<Rightarrow> int \<Rightarrow> int \<Rightarrow> bool" where
  "tap_valid msk nx ny = (inside PuzzleWidth PuzzleHeight nx ny \<and> 0 < AlphaAt msk nx ny)"

definition renormalised_channel ::
  "(RGBA \<Rightarrow> 8 word) \<Rightarrow> Image \<Rightarrow> AlphaImage \<Rightarrow> int \<Rightarrow> int \<Rightarrow> nat" where
  "renormalised_channel ch piece msk px py =
     (let taps = concat (map (\<lambda>ky. map (\<lambda>kx. (ky, kx)) [-1..1]) [-1..1]);
          valid = filter (\<lambda>(ky, kx). tap_valid msk (px + kx) (py + ky)) taps;
          total = sum_list (map (\<lambda>(ky, kx). unat (ch (RGBAAt piece (px + kx) (py + ky))) * weight ky kx) valid);
          wsum = sum_list (map (\<lambda>(ky, kx). weight ky kx) valid)
      in total div wsum)"

definition blur_renormalised :: "Image \<Rightarrow> AlphaImage \<Rightarrow> int \<Rightarrow> int \<Rightarrow> RGBA" where
  "blur_renormalised piece msk px py =
     \<lparr>R = word_of_nat (renormalised_channel R piece msk px py),
      G = word_of_nat (renormalised_channel G piece msk px py),
      B = word_of_nat (renormalised_channel B piece msk px py),
      A = 255\<rparr>"

subsection \<open>What each pass does to a pixel\<close>

definition piece_blurred :: "Image \<Rightarrow> AlphaImage \<Rightarrow> int \<Rightarrow> int \<Rightarrow> RGBA" where
  "piece_blurred piece msk px py =
     \<lparr>R = word_of_nat (piece_sum R piece msk px py div 16),
      G = word_of_nat (piece_sum G piece msk px py div 16),
      B = word_of_nat (piece_sum B piece msk px py div 16),
      A = 255\<rparr>"

lemma blurOnce_body_pointwise:
  "pointwise 0 0
     (\<lambda>w h px py c. if 0 < AlphaAt msk px py then piece_blurred piece msk px py else Transparent)
     (blurOnce_body piece msk)"
  by (simp add: pointwise_def blurOnce_body_def piece_blurred_def Transparent_def)

lemma applyGaussianBlurOnce_px:
  "Dx (applyGaussianBlurOnce piece msk) = Dx piece"
  "Dy (applyGaussianBlurOnce piece msk) = Dy piece"
  "RGBAAt (applyGaussianBlurOnce piece msk) a b =
     (if inside PuzzleWidth PuzzleHeight a b \<and> inside (Dx piece) (Dy piece) a b \<and> 0 < AlphaAt msk a b
      then piece_blurred piece msk a b else Transparent)"
proof -
  note px = for_yx_pointwise [OF blurOnce_body_pointwise, of PuzzleHeight PuzzleWidth piece msk
      "NewRGBA (Dx piece) (Dy piece)" a b]
  show "Dx (applyGaussianBlurOnce piece msk) = Dx piece" "Dy (applyGaussianBlurOnce piece msk) = Dy piece"
    by (simp_all add: applyGaussianBlurOnce_def Let_def)
  show "RGBAAt (applyGaussianBlurOnce piece msk) a b =
     (if inside PuzzleWidth PuzzleHeight a b \<and> inside (Dx piece) (Dy piece) a b \<and> 0 < AlphaAt msk a b
      then piece_blurred piece msk a b else Transparent)"
    using px by (simp add: applyGaussianBlurOnce_def Let_def RGBAAt_Draw_same)
qed

lemma applyGaussianBlur_unfold:
  "applyGaussianBlur piece msk = applyGaussianBlurOnce (applyGaussianBlurOnce piece msk) msk"
  by (simp add: applyGaussianBlur_def upto.simps)

lemma A_piece_blurred [simp]: "A (piece_blurred piece msk a b) = 255"
  by (simp add: piece_blurred_def)

lemma extract_body_pointwise:
  "pointwise 0 0
     (\<lambda>w h px py c. if 0 < AlphaAt msk px py \<and> inside (Dx bgImage) (Dy bgImage) (x + px) (y + py)
                 then RGBAAt bgImage (x + px) (y + py) else c)
     (extract_body bgImage x y msk)"
  by (auto simp: pointwise_def extract_body_def Let_def inside_def SetRGBA_same)

lemma simpleBorder_body_pointwise:
  "pointwise 0 0
     (\<lambda>w h px py c. if 0 < AlphaAt msk px py \<and> isEdgeSimple px py msk
                 then \<lparr>R = 255, G = 255, B = 255, A = 255\<rparr> else c)
     (simpleBorder_body msk)"
  by (auto simp: pointwise_def simpleBorder_body_def SetRGBA_same)

lemmas extract_px =
  for_yx_pointwise [OF extract_body_pointwise, of PuzzleHeight PuzzleWidth, simplified]

lemmas simpleBorder_px =
  for_yx_pointwise [OF simpleBorder_body_pointwise, of PuzzleHeight PuzzleWidth, simplified]

lemma piece_sum_taps:
  "piece_sum ch piece msk px py =
     (\<Sum>ky\<in>{-1..1}. \<Sum>kx\<in>{-1..1}.
        if 0 < AlphaAt msk (clampTo PuzzleWidth (px + kx)) (clampTo PuzzleHeight (py + ky))
        then nat ((2 - \<bar>ky\<bar>) * (2 - \<bar>kx\<bar>)) *
             unat (ch (RGBAAt piece (clampTo PuzzleWidth (px + kx)) (clampTo PuzzleHeight (py + ky))))
        else 0)"
  by (simp add: piece_sum_def upto3 ints3 weights Let_def)

lemma clamp70: "clampTo PuzzleWidth 0 = 0" "clampTo PuzzleWidth 1 = 1" "clampTo PuzzleWidth 2 = 2"
  "clampTo PuzzleHeight 0 = 0" "clampTo PuzzleHeight 1 = 1" "clampTo PuzzleHeight 2 = 2"
  by (simp_all add: clampTo_def PuzzleWidth_def PuzzleHeight_def)

lemma frame11: "inside PuzzleWidth PuzzleHeight 1 1" "inside 70 70 1 1"
  by (simp_all add: inside_def PuzzleWidth_def PuzzleHeight_def)

subsection \<open>The divisor of the blur\<close>

text \<open>
  C4 as stated fails. On a grey 70 by 70 piece with the one-pixel mask at \<open>(1, 1)\<close>
  only the centre tap, of weight 4, lies in the mask: dividing by the weights of the
  taps that count would keep the colour \<open>(200, 200, 200)\<close>, and the code returns
  \<open>(50, 50, 50)\<close>, which is \<open>4 * 200 div 16\<close>.
\<close>

theorem blur_divides_by_full_kernel_sum:
  "RGBAAt (applyGaussianBlurOnce (plain 70 70 grey) dot_mask) 1 1 = \<lparr>R = 50, G = 50, B = 50, A = 255\<rparr> \<and>
   blur_renormalised (plain 70 70 grey) dot_mask 1 1 = \<lparr>R = 200, G = 200, B = 200, A = 255\<rparr> \<and>
   RGBAAt (applyGaussianBlurOnce (plain 70 70 grey) dot_mask) 1 1
     \<noteq> blur_renormalised (plain 70 70 grey) dot_mask 1 1"
proof -
  have "RGBAAt (applyGaussianBlurOnce (plain 70 70 grey) dot_mask) 1 1 = \<lparr>R = 50, G = 50, B = 50, A = 255\<rparr>"
    by (simp add: applyGaussianBlurOnce_px frame11 dot_alpha piece_blurred_def piece_sum_def upto3
        clamp70 weights plain_at grey_def)
  moreover have "blur_renormalised (plain 70 70 grey) dot_mask 1 1 = \<lparr>R = 200, G = 200, B = 200, A = 255\<rparr>"
    by (simp add: blur_renormalised_def renormalised_channel_def upto3 tap_valid_def dot_alpha
        weights plain_at frame11 grey_def)
  ultimately show ?thesis by simp
qed

text \<open>
  C4, amended. In one iteration of the final blur of the piece, a masked pixel
  \<open>(px, py)\<close> gets alpha 255 and, in each colour channel, the sum over its nine taps
  divided by the full kernel sum 16. The tap \<open>(kx, ky)\<close> has weight
  \<open>(2 - |ky|) * (2 - |kx|)\<close>; its position is clamped to the frame, so a tap outside the
  frame reads the nearest pixel of the frame; it is left out of the sum when the mask is
  0 at the clamped position.
\<close>

theorem applyGaussianBlurOnce_divides_by_16:
  assumes "inside PuzzleWidth PuzzleHeight px py" "inside (Dx piece) (Dy piece) px py"
    and "0 < AlphaAt msk px py"
  shows "RGBAAt (applyGaussianBlurOnce piece msk) px py =
     \<lparr>R = word_of_nat ((\<Sum>ky\<in>{-1..1}. \<Sum>kx\<in>{-1..1}.
            if 0 < AlphaAt msk (clampTo PuzzleWidth (px + kx)) (clampTo PuzzleHeight (py + ky))
            then nat ((2 - \<bar>ky\<bar>) * (2 - \<bar>kx\<bar>)) *
                 unat (R (RGBAAt piece (clampTo PuzzleWidth (px + kx)) (clampTo PuzzleHeight (py + ky))))
            else 0) div 16),
      G = word_of_nat ((\<Sum>ky\<in>{-1..1}. \<Sum>kx\<in>{-1..1}.
            if 0 < AlphaAt msk (clampTo PuzzleWidth (px + kx)) (clampTo PuzzleHeight (py + ky))
            then nat ((2 - \<bar>ky\<bar>) * (2 - \<bar>kx\<bar>)) *
                 unat (G (RGBAAt piece (clampTo PuzzleWidth (px + kx)) (clampTo PuzzleHeight (py + ky))))
            else 0) div 16),
      B = word_of_nat ((\<Sum>ky\<in>{-1..1}. \<Sum>kx\<in>{-1..1}.
            if 0 < AlphaAt msk (clampTo PuzzleWidth (px + kx)) (clampTo PuzzleHeight (py + ky))
            then nat ((2 - \<bar>ky\<bar>) * (2 - \<bar>kx\<bar>)) *
                 unat (B (RGBAAt piece (clampTo PuzzleWidth (px + kx)) (clampTo PuzzleHeight (py + ky))))
            else 0) div 16),
      A = 255\<rparr>"
  using assms
  by (simp only: applyGaussianBlurOnce_px piece_blurred_def piece_sum_taps simp_thms if_True)

theorem applyGaussianBlurOnce_divides_by_16_witness:
  "inside PuzzleWidth PuzzleHeight 1 1 \<and> inside (Dx (plain 70 70 grey)) (Dy (plain 70 70 grey)) 1 1 \<and>
   0 < AlphaAt dot_mask 1 1 \<and>
   RGBAAt (applyGaussianBlurOnce (plain 70 70 grey) dot_mask) 1 1 = \<lparr>R = 50, G = 50, B = 50, A = 255\<rparr>"
proof -
  have h: "inside PuzzleWidth PuzzleHeight 1 1" "inside (Dx (plain 70 70 grey)) (Dy (plain 70 70 grey)) 1 1"
    "0 < AlphaAt dot_mask 1 1"
    by (simp_all add: frame11 dot_alpha)
  show ?thesis
    using h applyGaussianBlurOnce_divides_by_16 [OF h]
    by (simp add: ints3 clamp70 dot_alpha plain_at frame11 grey_def)
qed

subsection \<open>The alpha channel of the piece\<close>

text \<open>
  C6. The extracted piece is a 70 by 70 image, and each of its pixels has alpha 255
  where the opacity of the mask is above 0 and is fully transparent, \<open>(0, 0, 0, 0)\<close>,
  where the opacity of the mask is 0: no pixel has a partial alpha, and no colour is
  left outside the footprint of the mask. This holds whatever the float passes store.
\<close>

theorem ExtractPuzzlePieceWithMask_alpha:
  assumes "inside PuzzleWidth PuzzleHeight a b"
  shows "Dx (ExtractPuzzlePieceWithMask fp bgImage x y msk) = PuzzleWidth \<and>
         Dy (ExtractPuzzlePieceWithMask fp bgImage x y msk) = PuzzleHeight \<and>
         (0 < AlphaAt msk a b \<longrightarrow> A (RGBAAt (ExtractPuzzlePieceWithMask fp bgImage x y msk) a b) = 255) \<and>
         (AlphaAt msk a b = 0 \<longrightarrow> RGBAAt (ExtractPuzzlePieceWithMask fp bgImage x y msk) a b = Transparent) \<and>
         (A (RGBAAt (ExtractPuzzlePieceWithMask fp bgImage x y msk) a b) = 255 \<or>
          A (RGBAAt (ExtractPuzzlePieceWithMask fp bgImage x y msk) a b) = 0)"
proof -
  define q where "q = addSimpleBorder fp (for_yx PuzzleHeight PuzzleWidth (extract_body bgImage x y msk)
            (DrawUniform (NewRGBA PuzzleWidth PuzzleHeight) Transparent)) msk"
  have e: "ExtractPuzzlePieceWithMask fp bgImage x y msk =
      applyGaussianBlurOnce (applyGaussianBlurOnce (q\<lparr>Pix := add3DEffect fp (Pix q) msk\<rparr>) msk) msk"
    by (simp add: ExtractPuzzlePieceWithMask_def Let_def applyGaussianBlur_unfold q_def)
  have d: "Dx (q\<lparr>Pix := add3DEffect fp (Pix q) msk\<rparr>) = PuzzleWidth"
    "Dy (q\<lparr>Pix := add3DEffect fp (Pix q) msk\<rparr>) = PuzzleHeight"
    by (simp_all add: q_def addSimpleBorder_def Let_def extract_px simpleBorder_px)
  show ?thesis
    unfolding e using assms d
    by (cases "AlphaAt msk a b = 0") (simp_all add: applyGaussianBlurOnce_px Transparent_def word_gt_0)
qed

theorem ExtractPuzzlePieceWithMask_alpha_witness:
  "inside PuzzleWidth PuzzleHeight 1 1 \<and> inside PuzzleWidth PuzzleHeight 2 2 \<and>
   A (RGBAAt (ExtractPuzzlePieceWithMask no_float_passes (plain 100 100 grey) 10 10 dot_mask) 1 1) = 255 \<and>
   RGBAAt (ExtractPuzzlePieceWithMask no_float_passes (plain 100 100 grey) 10 10 dot_mask) 2 2 = Transparent"
proof -
  have i: "inside PuzzleWidth PuzzleHeight 1 1" "inside PuzzleWidth PuzzleHeight 2 2"
    by (simp_all add: inside_def PuzzleWidth_def PuzzleHeight_def)
  show ?thesis
    using i ExtractPuzzlePieceWithMask_alpha [OF i(1), of no_float_passes "plain 100 100 grey" 10 10 dot_mask]
      ExtractPuzzlePieceWithMask_alpha [OF i(2), of no_float_passes "plain 100 100 grey" 10 10 dot_mask]
    by (simp add: dot_alpha)
qed

section \<open>Service (service.go)\<close>

record CaptchaService =
  backgroundImages :: "Image list"
  puzzleMasks :: "PuzzleType \<rightharpoonup> AlphaImage"
  backgroundURLs :: "string list"
  initialized :: bool

record SliderCaptcha =
  captchaID :: string
  Background :: string
  Slider :: string
  captchaPositionY :: go_int

text \<open>
  What a call takes from outside the program: the draws of the random generator, the
  fresh UUID, the clock, the image loader (\<open>DownloadImage\<close>), the mask assets on disk,
  the PNG and base64 encoder (\<open>ImageToBase64\<close>), the scaling
  \<open>int(float64(p) * (float64(target) / float64(size)))\<close> of a position, computed in
  \<open>float64\<close>, and the float passes of the piece extractor.
\<close>

record Env =
  drawBackground :: int
  drawX :: int
  drawY :: int
  drawShape :: int
  newUUID :: string
  timeNow :: int
  DownloadImage :: "string \<Rightarrow> error + Image"
  maskFiles :: "string \<rightharpoonup> Image"
  ImageToBase64 :: "Image \<Rightarrow> error + string"
  scalePosition :: "int \<Rightarrow> int \<Rightarrow> int \<Rightarrow> int"
  floatPasses :: float_passes

definition BackgroundURLs :: "string list" where
  "BackgroundURLs =
     [''https://lunalab-res.oss-cn-hangzhou.aliyuncs.com/ttsVoice/captcha/image1.jpg'',
      ''https://lunalab-res.oss-cn-hangzhou.aliyuncs.com/ttsVoice/captcha/image2.jpg'',
      ''https://lunalab-res.oss-cn-hangzhou.aliyuncs.com/ttsVoice/captcha/image3.jpg'',
      ''https://lunalab-res.oss-cn-hangzhou.aliyuncs.com/ttsVoice/captcha/image4.jpg'',
      ''https://lunalab-res.oss-cn-hangzhou.aliyuncs.com/ttsVoice/captcha/image5.jpg'',
      ''https://lunalab-res.oss-cn-hangzhou.aliyuncs.com/ttsVoice/captcha/image6.jpg'',
      ''https://lunalab-res.oss-cn-hangzhou.aliyuncs.com/ttsVoice/captcha/image7.jpg'',
      ''https://lunalab-res.oss-cn-hangzhou.aliyuncs.com/ttsVoice/captcha/image8.jpg'',
      ''https://lunalab-res.oss-cn-hangzhou.aliyuncs.com/ttsVoice/captcha/image9.jpg'',
      ''https://lunalab-res.oss-cn-hangzhou.aliyuncs.com/ttsVoice/captcha/image10.jpg'']"

definition NewCaptchaService :: CaptchaService where
  "NewCaptchaService =
     \<lparr>backgroundImages = [], puzzleMasks = Map.empty, backgroundURLs = [], initialized = False\<rparr>"

text \<open>The loop of \<open>loadBackgroundImages\<close> returns at the first image that fails to load.\<close>

fun loadBackgroundImages_from ::
  "Env \<Rightarrow> string list \<Rightarrow> CaptchaService \<Rightarrow> error option \<times> CaptchaService" where
  "loadBackgroundImages_from env [] s = (None, s)"
| "loadBackgroundImages_from env (imgURL # urls) s =
     (case DownloadImage env imgURL of
        Inl e \<Rightarrow> (Some ErrLoad, s)
      | Inr img \<Rightarrow>
          loadBackgroundImages_from env urls (s\<lparr>backgroundImages := backgroundImages s @ [img]\<rparr>))"

definition loadBackgroundImages :: "Env \<Rightarrow> CaptchaService \<Rightarrow> error option \<times> CaptchaService" where
  "loadBackgroundImages env s = loadBackgroundImages_from env (backgroundURLs s) s"

definition generatePuzzleMasks :: "Env \<Rightarrow> CaptchaService \<Rightarrow> error option \<times> CaptchaService" where
  "generatePuzzleMasks env s =
     (None,
      fold (\<lambda>shapeType s.
              s\<lparr>puzzleMasks := (puzzleMasks s)
                   (shapeType \<mapsto> GeneratePuzzleMask (maskFiles env) (shape_of shapeType))\<rparr>)
        [PuzzleTypeTriangle, PuzzleTypeHexagon, PuzzleTypeTrapezoid, PuzzleTypeStar] s)"

definition Init :: "Env \<Rightarrow> CaptchaService \<Rightarrow> error option \<times> CaptchaService" where
  "Init env s =
     (if initialized s then (None, s)
      else
        (let s = (if length (backgroundURLs s) = 0 then s\<lparr>backgroundURLs := BackgroundURLs\<rparr> else s)
         in case loadBackgroundImages env s of
              (Some e, s) \<Rightarrow> (Some e, s)
            | (None, s) \<Rightarrow>
                (case generatePuzzleMasks env s of
                   (Some e, s) \<Rightarrow> (Some e, s)
                 | (None, s) \<Rightarrow> (None, s\<lparr>initialized := True\<rparr>))))"

definition PuzzleType_of :: "int \<Rightarrow> PuzzleType option" where
  "PuzzleType_of n =
     (if n = 0 then Some PuzzleTypeTriangle
      else if n = 1 then Some PuzzleTypeHexagon
      else if n = 2 then Some PuzzleTypeTrapezoid
      else if n = 3 then Some PuzzleTypeStar
      else None)"

definition GetRandomBackground :: "CaptchaService \<Rightarrow> int \<Rightarrow> Image option" where
  "GetRandomBackground s r =
     (if length (backgroundImages s) = 0 then None
      else (case Intn (int (length (backgroundImages s))) r of
              Inl e \<Rightarrow> None
            | Inr index \<Rightarrow> Some (backgroundImages s ! nat index)))"

definition GetPuzzleMask :: "CaptchaService \<Rightarrow> PuzzleType option \<Rightarrow> AlphaImage option" where
  "GetPuzzleMask s shapeType = (case shapeType of None \<Rightarrow> None | Some t \<Rightarrow> puzzleMasks s t)"

text \<open>
  The two images of a captcha. The resized canvas is the only object of the heap the
  hole compositor is given.
\<close>

definition GenerateCaptchaImagesWithMask ::
  "Env \<Rightarrow> Image \<Rightarrow> int \<Rightarrow> int \<Rightarrow> AlphaImage \<Rightarrow> error + (string \<times> string)" where
  "GenerateCaptchaImagesWithMask env bgImage x y msk =
     (let targetWidth = 350;
          targetHeight = 200;
          resizedImage = ResizeImage bgImage targetWidth targetHeight;
          scaledX = scalePosition env x targetWidth (Dx bgImage);
          scaledY = scalePosition env y targetHeight (Dy bgImage);
          (hole, h) = CreatePuzzleHoleWithMask [resizedImage] 0 scaledX scaledY msk;
          holeImage = h ! hole;
          pieceImage = ExtractPuzzlePieceWithMask (floatPasses env) resizedImage scaledX scaledY msk
      in case ImageToBase64 env holeImage of
           Inl e \<Rightarrow> Inl ErrEncode
         | Inr bgBase64 \<Rightarrow>
             (case ImageToBase64 env pieceImage of
                Inl e \<Rightarrow> Inl ErrEncode
              | Inr sliderBase64 \<Rightarrow> Inr (bgBase64, sliderBase64)))"

text \<open>
  \<open>Generate\<close> returns the captcha or the error, and the session store as it leaves it.
\<close>

definition Generate ::
  "Env \<Rightarrow> CaptchaService \<Rightarrow> MemoryStore \<Rightarrow> (error + SliderCaptcha) \<times> MemoryStore" where
  "Generate env s store =
     (if \<not> initialized s then (Inl ErrNotInitialized, store)
      else
        (case GetRandomBackground s (drawBackground env) of
           None \<Rightarrow> (Inl ErrNoBackground, store)
         | Some bgImage \<Rightarrow>
             (let imgWidth = Dx bgImage; imgHeight = Dy bgImage in
              case Generate_placement imgWidth imgHeight (drawX env) (drawY env) of
                Inl e \<Rightarrow> (Inl e, store)
              | Inr (positionX, positionY) \<Rightarrow>
                  (case Intn 4 (drawShape env) of
                     Inl e \<Rightarrow> (Inl e, store)
                   | Inr n \<Rightarrow>
                       (case GetPuzzleMask s (PuzzleType_of n) of
                          None \<Rightarrow> (Inl ErrMaskNotFound, store)
                        | Some msk \<Rightarrow>
                            (case GenerateCaptchaImagesWithMask env bgImage positionX positionY msk of
                               Inl e \<Rightarrow> (Inl e, store)
                             | Inr (bgWithHole, sliderPiece) \<Rightarrow>
                                 (let targetWidth = 350;
                                      targetHeight = 200;
                                      scaledPositionX = scalePosition env positionX targetWidth imgWidth;
                                      scaledPositionY = scalePosition env positionY targetHeight imgHeight;
                                      i = newUUID env;
                                      captchaData = \<lparr>ID = i, PositionX = word_of_int scaledPositionX,
                                                     PositionY = word_of_int scaledPositionY, CreatedAt = 0\<rparr>
                                  in (Inr \<lparr>captchaID = i, Background = bgWithHole, Slider = sliderPiece,
                                            captchaPositionY = word_of_int scaledPositionY\<rparr>,
                                      Set store i captchaData (timeNow env)))))))))"

text \<open>An environment in which every image fails to load, for testing.\<close>

definition offline :: Env where
  "offline =
     \<lparr>drawBackground = 0, drawX = 0, drawY = 0, drawShape = 0, newUUID = ''id'', timeNow = 0,
      DownloadImage = (\<lambda>u. Inl ErrLoad), maskFiles = Map.empty,
      ImageToBase64 = (\<lambda>img. Inl ErrEncode), scalePosition = (\<lambda>p t n. p * t div n),
      floatPasses = no_float_passes\<rparr>"

subsection \<open>A service that is not initialised\<close>

lemma loadBackgroundImages_from_initialized:
  "initialized (snd (loadBackgroundImages_from env urls s)) = initialized s"
  by (induction urls arbitrary: s) (auto split: sum.splits)

lemma Init_failed:
  assumes "\<not> initialized s" "Init env s = (Some e, s')"
  shows "\<not> initialized s'"
proof -
  let ?s = "if length (backgroundURLs s) = 0 then s\<lparr>backgroundURLs := BackgroundURLs\<rparr> else s"
  have i: "\<not> initialized (snd (loadBackgroundImages env ?s))"
    using assms(1) by (simp add: loadBackgroundImages_def loadBackgroundImages_from_initialized)
  obtain r t where l: "loadBackgroundImages env ?s = (r, t)"
    by (cases "loadBackgroundImages env ?s")
  show ?thesis
  proof (cases r)
    case None
    with assms l show ?thesis
      by (simp add: Init_def Let_def generatePuzzleMasks_def)
  next
    case (Some e')
    with assms l i show ?thesis
      by (simp add: Init_def Let_def)
  qed
qed

text \<open>
  C10. \<open>Generate\<close> on a service whose \<open>Init\<close> has not completed returns an error and
  leaves the session store as it was. \<open>Init\<close> has not completed when the service is not
  initialised: before any call of \<open>Init\<close>, and also after a call of \<open>Init\<close> that
  returned an error.
\<close>

theorem Generate_uninitialized:
  assumes "\<not> initialized s"
  shows "Generate env s store = (Inl ErrNotInitialized, store) \<and>
         (\<forall>env' e s'. Init env' s = (Some e, s') \<longrightarrow>
            Generate env s' store = (Inl ErrNotInitialized, store))"
  using assms Init_failed [OF assms] by (simp add: Generate_def)

theorem Generate_uninitialized_witness:
  "\<not> initialized NewCaptchaService \<and>
   Generate offline NewCaptchaService (NewMemoryStore five_minutes)
     = (Inl ErrNotInitialized, NewMemoryStore five_minutes) \<and>
   fst (Init offline NewCaptchaService) = Some ErrLoad \<and>
   Generate offline (snd (Init offline NewCaptchaService)) (NewMemoryStore five_minutes)
     = (Inl ErrNotInitialized, NewMemoryStore five_minutes)"
proof -
  have n: "\<not> initialized NewCaptchaService" by (simp add: NewCaptchaService_def)
  have i: "fst (Init offline NewCaptchaService) = Some ErrLoad"
    by (simp add: Init_def NewCaptchaService_def loadBackgroundImages_def BackgroundURLs_def
        offline_def Let_def)
  then have "Init offline NewCaptchaService = (Some ErrLoad, snd (Init offline NewCaptchaService))"
    by (metis prod.collapse)
  with Generate_uninitialized [OF n, of offline "NewMemoryStore five_minutes"] n i
  show ?thesis by blast
qed

end
